theory Spec2Isabelle
  imports Complex_Main
begin

section \<open>Python values used by the risk engine\<close>

text \<open>
  The module \<^verbatim>\<open>src/risk/risk_engine.py\<close> computes on Python floats. A float is
  modelled as a real number or one of the three special values of IEEE arithmetic; the
  arithmetic on the finite values is exact (rounding and signed zeros are not
  modelled), the rules for the special values are the IEEE ones, since the code depends
  on them: a comparison with NaN is false, NumPy divides by zero without raising.
\<close>

datatype pyfloat = Fin real | PInf | NInf | NaN

datatype py_error = KeyError | ZeroDivisionError | ValueError

fun is_nan :: "pyfloat \<Rightarrow> bool" where
  "is_nan NaN = True"
| "is_nan _ = False"

fun is_inf :: "pyfloat \<Rightarrow> bool" where
  "is_inf PInf = True"
| "is_inf NInf = True"
| "is_inf _ = False"

fun is_finite :: "pyfloat \<Rightarrow> bool" where
  "is_finite (Fin _) = True"
| "is_finite _ = False"

fun fneg :: "pyfloat \<Rightarrow> pyfloat" where
  "fneg (Fin x) = Fin (- x)"
| "fneg PInf = NInf"
| "fneg NInf = PInf"
| "fneg NaN = NaN"

fun fabs :: "pyfloat \<Rightarrow> pyfloat" where
  "fabs (Fin x) = Fin \<bar>x\<bar>"
| "fabs PInf = PInf"
| "fabs NInf = PInf"
| "fabs NaN = NaN"

fun fadd :: "pyfloat \<Rightarrow> pyfloat \<Rightarrow> pyfloat" where
  "fadd (Fin x) (Fin y) = Fin (x + y)"
| "fadd NaN _ = NaN"
| "fadd _ NaN = NaN"
| "fadd PInf NInf = NaN"
| "fadd NInf PInf = NaN"
| "fadd PInf _ = PInf"
| "fadd _ PInf = PInf"
| "fadd NInf _ = NInf"
| "fadd _ NInf = NInf"

definition fsub :: "pyfloat \<Rightarrow> pyfloat \<Rightarrow> pyfloat" where
  "fsub a b = fadd a (fneg b)"

text \<open>The sign of a float that is not NaN: \<open>-1\<close>, \<open>0\<close> or \<open>1\<close>.\<close>

fun fsgn :: "pyfloat \<Rightarrow> int" where
  "fsgn (Fin x) = (if x < 0 then -1 else if x = 0 then 0 else 1)"
| "fsgn PInf = 1"
| "fsgn NInf = -1"
| "fsgn NaN = 0"

definition inf_of_sign :: "int \<Rightarrow> pyfloat" where
  "inf_of_sign s = (if s < 0 then NInf else if s = 0 then NaN else PInf)"

fun fmul :: "pyfloat \<Rightarrow> pyfloat \<Rightarrow> pyfloat" where
  "fmul (Fin x) (Fin y) = Fin (x * y)"
| "fmul NaN _ = NaN"
| "fmul _ NaN = NaN"
| "fmul a b = inf_of_sign (fsgn a * fsgn b)"

text \<open>
  Division as NumPy and pandas do it on arrays: no exception, a non-zero value over
  zero is an infinity, zero over zero and infinity over infinity are NaN.
\<close>

fun fdiv :: "pyfloat \<Rightarrow> pyfloat \<Rightarrow> pyfloat" where
  "fdiv NaN _ = NaN"
| "fdiv _ NaN = NaN"
| "fdiv (Fin x) (Fin y) = (if y = 0 then inf_of_sign (fsgn (Fin x)) else Fin (x / y))"
| "fdiv (Fin x) _ = Fin 0"
| "fdiv a (Fin y) = inf_of_sign (fsgn a * (if y < 0 then -1 else 1))"
| "fdiv _ _ = NaN"

text \<open>Division of two Python float objects: a zero divisor raises.\<close>

definition py_truediv :: "pyfloat \<Rightarrow> pyfloat \<Rightarrow> py_error + pyfloat" where
  "py_truediv a b = (if b = Fin 0 then Inl ZeroDivisionError else Inr (fdiv a b))"

fun fle :: "pyfloat \<Rightarrow> pyfloat \<Rightarrow> bool" where
  "fle NaN _ = False"
| "fle _ NaN = False"
| "fle (Fin x) (Fin y) = (x \<le> y)"
| "fle NInf _ = True"
| "fle _ PInf = True"
| "fle _ _ = False"

definition flt :: "pyfloat \<Rightarrow> pyfloat \<Rightarrow> bool" where
  "flt a b = (fle a b \<and> a \<noteq> b)"

definition fgt :: "pyfloat \<Rightarrow> pyfloat \<Rightarrow> bool" where
  "fgt a b = flt b a"

definition fge :: "pyfloat \<Rightarrow> pyfloat \<Rightarrow> bool" where
  "fge a b = fle b a"

text \<open>The builtin \<^verbatim>\<open>sum\<close> starts from the integer 0 and adds from the left.\<close>

definition py_sum :: "pyfloat list \<Rightarrow> pyfloat" where
  "py_sum xs = foldl fadd (Fin 0) xs"

text \<open>The slice \<^verbatim>\<open>xs[-n:]\<close>: the last \<open>n\<close> elements, all of them when there are fewer.\<close>

definition py_last :: "nat \<Rightarrow> 'a list \<Rightarrow> 'a list" where
  "py_last n xs = drop (length xs - n) xs"

section \<open>The data model\<close>

datatype RiskLevel = GREEN | YELLOW | ORANGE | RED

datatype CircuitBreakerLevel = NONE | LEVEL_1 | LEVEL_2 | LEVEL_3

type_synonym datetime = int

record RiskAlert =
  level :: RiskLevel
  message :: string
  metric :: string
  current_value :: pyfloat
  limit_value :: pyfloat
  timestamp :: datetime
  action_required :: bool

text \<open>
  A dict of weights keeps its keys in insertion order: an association list. Dicts are
  mutable objects, so a portfolio holds the address of its \<^verbatim>\<open>positions\<close> dict in a
  store of dict objects; allocation appends to the store.
\<close>

type_synonym pydict = "(string \<times> pyfloat) list"
type_synonym addr = nat
type_synonym dict_store = "pydict list"

record Portfolio =
  positions :: addr
  nav :: pyfloat
  cash :: pyfloat
  snapshot_time :: datetime
  daily_pnl :: pyfloat
  daily_pnl_pct :: pyfloat

record PositionLimits =
  single_name :: pyfloat
  sector :: pyfloat
  gross :: pyfloat
  net :: pyfloat

record CircuitBreakers =
  daily_loss_1 :: pyfloat
  daily_loss_2 :: pyfloat
  drawdown_30d :: pyfloat

text \<open>
  The correlation matrix is a DataFrame of floats, kept as the list of its columns.
\<close>

record RiskEngine =
  config :: pydict
  position_limits :: PositionLimits
  circuit_breakers :: CircuitBreakers
  var_confidence :: pyfloat
  var_horizon :: pyfloat
  current_breaker_level :: CircuitBreakerLevel
  risk_alerts :: "RiskAlert list"
  portfolio_history :: "Portfolio list"
  correlation_matrix :: "pyfloat list list"

section \<open>Construction\<close>

definition get_default_config :: pydict where
  "get_default_config =
     [(''single_name_limit'', Fin (3 / 100)),
      (''sector_limit'', Fin (15 / 100)),
      (''gross_limit'', Fin (150 / 100)),
      (''net_limit'', Fin (50 / 100)),
      (''daily_loss_1'', Fin (- (15 / 1000))),
      (''daily_loss_2'', Fin (- (20 / 1000))),
      (''drawdown_30d'', Fin (- (120 / 1000))),
      (''var_confidence'', Fin (95 / 100)),
      (''var_horizon'', Fin 1),
      (''correlation_threshold'', Fin (3 / 10)),
      (''vix_spike_threshold'', Fin 30),
      (''max_sector_exposure'', Fin (15 / 100))]"

text \<open>\<^verbatim>\<open>d.get(key, default)\<close>\<close>

definition dict_get :: "pydict \<Rightarrow> string \<Rightarrow> pyfloat \<Rightarrow> pyfloat" where
  "dict_get d k dflt = (case map_of d k of None \<Rightarrow> dflt | Some v \<Rightarrow> v)"

text \<open>
  \<^verbatim>\<open>__init__\<close>: \<^verbatim>\<open>config or self._get_default_config()\<close> takes the defaults for
  \<^verbatim>\<open>None\<close> and for the empty dict, which is falsy. The body has no \<^verbatim>\<open>raise\<close> and calls
  nothing that raises on a dict, so the result is always an engine.
\<close>

definition RiskEngine_init :: "pydict option \<Rightarrow> py_error + RiskEngine" where
  "RiskEngine_init cfg_arg =
     (let cfg = (case cfg_arg of None \<Rightarrow> get_default_config
                 | Some c \<Rightarrow> if c = [] then get_default_config else c)
      in Inr \<lparr> config = cfg,
               position_limits = \<lparr> single_name = dict_get cfg ''single_name_limit'' (Fin (3 / 100)),
                                   sector = dict_get cfg ''sector_limit'' (Fin (15 / 100)),
                                   gross = dict_get cfg ''gross_limit'' (Fin (150 / 100)),
                                   net = dict_get cfg ''net_limit'' (Fin (50 / 100)) \<rparr>,
               circuit_breakers = \<lparr> daily_loss_1 = dict_get cfg ''daily_loss_1'' (Fin (- (15 / 1000))),
                                    daily_loss_2 = dict_get cfg ''daily_loss_2'' (Fin (- (20 / 1000))),
                                    drawdown_30d = dict_get cfg ''drawdown_30d'' (Fin (- (120 / 1000))) \<rparr>,
               var_confidence = dict_get cfg ''var_confidence'' (Fin (95 / 100)),
               var_horizon = dict_get cfg ''var_horizon'' (Fin 1),
               current_breaker_level = NONE,
               risk_alerts = [],
               portfolio_history = [],
               correlation_matrix = [] \<rparr>)"

section \<open>The history buffer\<close>

text \<open>
  \<^verbatim>\<open>update_portfolio_history\<close> appends, then keeps the last 252 entries when there
  are more.
\<close>

definition update_portfolio_history :: "RiskEngine \<Rightarrow> Portfolio \<Rightarrow> RiskEngine" where
  "update_portfolio_history e p =
     (let h = portfolio_history e @ [p]
      in e\<lparr>portfolio_history := (if length h > 252 then py_last 252 h else h)\<rparr>)"

text \<open>The engine after recording the snapshots of a list, one call each, in order.\<close>

definition record_all :: "RiskEngine \<Rightarrow> Portfolio list \<Rightarrow> RiskEngine" where
  "record_all e ps = foldl update_portfolio_history e ps"

section \<open>What the interpreter and the libraries supply\<close>

text \<open>
  The engine reads the clock (\<^verbatim>\<open>datetime.now()\<close>), formats floats into messages and
  calls pandas. The \<open>k\<close>-th reading of the clock is \<open>now_at env k\<close>; the functions that
  read it take the number of readings so far and return the new one. \<^verbatim>\<open>pct_change\<close>
  fills missing values forward before dividing in some releases of pandas and not in
  others: \<open>pct_pad\<close> says which. The two format specifications used in messages
  (\<^verbatim>\<open>.2%\<close> and \<^verbatim>\<open>.2f\<close>) are functions of the value formatted.
\<close>

record pyenv =
  now_at :: "nat \<Rightarrow> datetime"
  pct_pad :: bool
  fmt_pct :: "pyfloat \<Rightarrow> string"
  fmt_f2 :: "pyfloat \<Rightarrow> string"

section \<open>Series operations of pandas and NumPy\<close>

text \<open>Window operations replace the infinities by NaN before they compute.\<close>

definition inf_to_nan :: "pyfloat \<Rightarrow> pyfloat" where
  "inf_to_nan x = (if is_inf x then NaN else x)"

definition dropna :: "pyfloat list \<Rightarrow> pyfloat list" where
  "dropna xs = filter (\<lambda>x. \<not> is_nan x) xs"

text \<open>
  \<^verbatim>\<open>expanding().max()\<close>: at each index the largest value seen so far, NaN while none
  has been seen.
\<close>

fun expanding_max_from :: "pyfloat \<Rightarrow> pyfloat list \<Rightarrow> pyfloat list" where
  "expanding_max_from m [] = []"
| "expanding_max_from m (x # xs) =
     (let m' = (if is_nan x then m else if is_nan m then x else if fle m x then x else m)
      in m' # expanding_max_from m' xs)"

definition expanding_max :: "pyfloat list \<Rightarrow> pyfloat list" where
  "expanding_max xs = expanding_max_from NaN (map inf_to_nan xs)"

text \<open>\<^verbatim>\<open>Series.min()\<close> and \<^verbatim>\<open>Series.max()\<close> skip NaN; NaN when nothing is left.\<close>

definition series_min :: "pyfloat list \<Rightarrow> pyfloat" where
  "series_min xs =
     (case dropna xs of [] \<Rightarrow> NaN
      | y # ys \<Rightarrow> foldl (\<lambda>a b. if fle b a then b else a) y ys)"

definition series_max :: "pyfloat list \<Rightarrow> pyfloat" where
  "series_max xs =
     (case dropna xs of [] \<Rightarrow> NaN
      | y # ys \<Rightarrow> foldl (\<lambda>a b. if fle a b then b else a) y ys)"

fun ffill_from :: "pyfloat \<Rightarrow> pyfloat list \<Rightarrow> pyfloat list" where
  "ffill_from l [] = []"
| "ffill_from l (x # xs) = (let y = (if is_nan x then l else x) in y # ffill_from y xs)"

text \<open>
  \<^verbatim>\<open>pct_change()\<close>: each value over its predecessor, minus one; the first entry has no
  predecessor and is NaN.
\<close>

definition pct_change :: "bool \<Rightarrow> pyfloat list \<Rightarrow> pyfloat list" where
  "pct_change pad xs =
     (let ys = (if pad then ffill_from NaN xs else xs)
      in case ys of [] \<Rightarrow> []
         | _ # rest \<Rightarrow> NaN # map2 (\<lambda>cur prev. fsub (fdiv cur prev) (Fin 1)) rest ys)"

fun insort_f :: "pyfloat \<Rightarrow> pyfloat list \<Rightarrow> pyfloat list" where
  "insort_f x [] = [x]"
| "insort_f x (y # ys) = (if fle x y then x # y # ys else y # insort_f x ys)"

definition sort_f :: "pyfloat list \<Rightarrow> pyfloat list" where
  "sort_f xs = foldr insort_f xs []"

text \<open>
  The interpolation step of \<^verbatim>\<open>np.percentile\<close>: from \<open>a\<close> for small \<open>t\<close>, from \<open>b\<close> for
  \<open>t \<ge> 0.5\<close>.
\<close>

definition lerp :: "pyfloat \<Rightarrow> pyfloat \<Rightarrow> real \<Rightarrow> pyfloat" where
  "lerp a b t =
     (let d = fsub b a
      in if t \<ge> 1 / 2 then fsub b (fmul d (Fin (1 - t))) else fadd a (fmul d (Fin t)))"

text \<open>
  \<^verbatim>\<open>np.percentile(a, q)\<close> with the default (linear) method, on an array without NaN:
  \<open>q / 100\<close> must lie in \<open>[0, 1]\<close>, else ValueError; the result interpolates between
  the two order statistics around the index \<open>(n - 1) * q / 100\<close>. The engine calls it on
  at least ten values; on no values NumPy gives NaN.
\<close>

definition np_percentile :: "pyfloat list \<Rightarrow> pyfloat \<Rightarrow> py_error + pyfloat" where
  "np_percentile xs qpct =
     (case fdiv qpct (Fin 100) of
        Fin q \<Rightarrow>
          if 0 \<le> q \<and> q \<le> 1 then
            (if xs = [] then Inr NaN
             else let srt = sort_f xs;
                      n = length xs;
                      vi = real (n - 1) * q;
                      lo = nat \<lfloor>vi\<rfloor>;
                      hi = min (lo + 1) (n - 1)
                  in Inr (lerp (srt ! lo) (srt ! hi) (vi - real lo)))
          else Inl ValueError
      | _ \<Rightarrow> Inl ValueError)"

fun reals_of :: "pyfloat list \<Rightarrow> real list" where
  "reals_of [] = []"
| "reals_of (Fin x # xs) = x # reals_of xs"
| "reals_of (_ # xs) = reals_of xs"

text \<open>
  \<^verbatim>\<open>rolling(n)\<close>: at each index the statistic of the last \<open>n\<close> entries, NaN unless all
  \<open>n\<close> are there and are numbers.
\<close>

definition rolling :: "nat \<Rightarrow> (real list \<Rightarrow> pyfloat) \<Rightarrow> pyfloat list \<Rightarrow> pyfloat list" where
  "rolling n f xs =
     map (\<lambda>i. let vals = reals_of (map inf_to_nan (drop (Suc i - n) (take (Suc i) xs)))
               in if length vals < n then NaN else f vals)
         [0..<length xs]"

definition window_mean :: "real list \<Rightarrow> pyfloat" where
  "window_mean rs = Fin (sum_list rs / real (length rs))"

text \<open>The sample standard deviation (one degree of freedom removed).\<close>

definition window_std :: "real list \<Rightarrow> pyfloat" where
  "window_std rs =
     (let m = sum_list rs / real (length rs)
      in Fin (sqrt (sum_list (map (\<lambda>r. (r - m)\<^sup>2) rs) / (real (length rs) - 1))))"

section \<open>Drawdown and circuit breakers\<close>

definition calculate_30day_drawdown :: "RiskEngine \<Rightarrow> Portfolio \<Rightarrow> pyfloat" where
  "calculate_30day_drawdown e p =
     (if length (portfolio_history e) < 30 then Fin 0
      else let recent_history = py_last 30 (portfolio_history e);
               nav_series = map nav recent_history;
               rolling_max = expanding_max nav_series;
               drawdown = map2 (\<lambda>n m. fdiv (fsub n m) m) nav_series rolling_max
           in series_min drawdown)"

text \<open>
  \<^verbatim>\<open>check_breakers\<close> returns the level and stores it in the engine. Its log lines are
  not modelled.
\<close>

definition check_breakers :: "RiskEngine \<Rightarrow> Portfolio \<Rightarrow> CircuitBreakerLevel \<times> RiskEngine" where
  "check_breakers e p =
     (if fle (daily_pnl_pct p) (daily_loss_2 (circuit_breakers e)) then
        (LEVEL_2, e\<lparr>current_breaker_level := LEVEL_2\<rparr>)
      else if fle (daily_pnl_pct p) (daily_loss_1 (circuit_breakers e)) then
        (LEVEL_1, e\<lparr>current_breaker_level := LEVEL_1\<rparr>)
      else let dd = calculate_30day_drawdown e p
           in if fle dd (drawdown_30d (circuit_breakers e)) then
                (LEVEL_3, e\<lparr>current_breaker_level := LEVEL_3\<rparr>)
              else (NONE, e\<lparr>current_breaker_level := NONE\<rparr>))"

section \<open>Value at risk\<close>

definition calculate_var :: "pyenv \<Rightarrow> RiskEngine \<Rightarrow> Portfolio \<Rightarrow> py_error + pyfloat" where
  "calculate_var env e p =
     (if length (portfolio_history e) < 30 then Inr (Fin 0)
      else let nav_series = map nav (py_last 252 (portfolio_history e));
               returns = dropna (pct_change (pct_pad env) nav_series)
           in if length returns < 10 then Inr (Fin 0)
              else let var_percentile = fmul (fsub (Fin 1) (var_confidence e)) (Fin 100)
                   in case np_percentile returns var_percentile of
                        Inl err \<Rightarrow> Inl err
                      | Inr var \<Rightarrow> Inr (fabs var))"

section \<open>Regime detection\<close>

text \<open>A DataFrame of prices: its columns by name.\<close>

type_synonym dataframe = "(string \<times> pyfloat list) list"

definition df_column :: "dataframe \<Rightarrow> string \<Rightarrow> py_error + pyfloat list" where
  "df_column df c = (case map_of df c of None \<Rightarrow> Inl KeyError | Some col \<Rightarrow> Inr col)"

text \<open>The body of the \<^verbatim>\<open>try\<close> block.\<close>

definition detect_regime_try :: "pyenv \<Rightarrow> dataframe \<Rightarrow> py_error + string" where
  "detect_regime_try env market_data =
     (case df_column market_data ''close'' of
        Inl err \<Rightarrow> Inl err
      | Inr close \<Rightarrow>
          let returns = pct_change (pct_pad env) close;
              trend_score = map2 fdiv (rolling 20 window_mean returns) (rolling 20 window_std returns);
              current_trend = (if trend_score \<noteq> [] then last trend_score else Fin 0);
              vol_score = map (\<lambda>s. fmul s (Fin (sqrt 252))) (rolling 20 window_std returns);
              current_vol = (if vol_score \<noteq> [] then last vol_score else Fin 0);
              trend_threshold = Fin (1 / 10);
              vol_threshold = Fin (20 / 100)
          in if fgt current_trend trend_threshold \<and> flt current_vol vol_threshold then
               Inr ''TREND_LOW_VOL''
             else if fgt current_trend trend_threshold \<and> fge current_vol vol_threshold then
               Inr ''TREND_HIGH_VOL''
             else if fle current_trend trend_threshold \<and> flt current_vol vol_threshold then
               Inr ''CHOP_LOW_VOL''
             else Inr ''CHOP_HIGH_VOL'')"

text \<open>\<^verbatim>\<open>except Exception\<close>: a warning is logged and the label is \<^verbatim>\<open>UNKNOWN\<close>.\<close>

definition detect_regime :: "pyenv \<Rightarrow> dataframe \<Rightarrow> string" where
  "detect_regime env market_data =
     (case detect_regime_try env market_data of Inl err \<Rightarrow> ''UNKNOWN'' | Inr label \<Rightarrow> label)"

section \<open>Limit checks\<close>

text \<open>
  Each check returns its alerts and the number of clock readings after it. The loop
  over \<^verbatim>\<open>portfolio.positions.items()\<close> is a recursion over the entries of the dict,
  with the list of alerts built so far.
\<close>

fun single_name_loop ::
  "pyenv \<Rightarrow> RiskEngine \<Rightarrow> pydict \<Rightarrow> RiskAlert list \<Rightarrow> nat \<Rightarrow> RiskAlert list \<times> nat" where
  "single_name_loop env e [] alerts t = (alerts, t)"
| "single_name_loop env e ((symbol, weight) # rest) alerts t =
     (let abs_weight = fabs weight
      in if fgt abs_weight (single_name (position_limits e)) then
           let lvl = (if fgt abs_weight (fmul (single_name (position_limits e)) (Fin (12 / 10)))
                      then RED else ORANGE);
               alert = \<lparr> level = lvl,
                         message = ''Single name limit exceeded: '' @ symbol,
                         metric = ''single_name_concentration'',
                         current_value = abs_weight,
                         limit_value = single_name (position_limits e),
                         timestamp = now_at env t,
                         action_required = True \<rparr>
           in single_name_loop env e rest (alerts @ [alert]) (Suc t)
         else single_name_loop env e rest alerts t)"

definition check_single_name_limits ::
  "pyenv \<Rightarrow> dict_store \<Rightarrow> RiskEngine \<Rightarrow> Portfolio \<Rightarrow> nat \<Rightarrow> RiskAlert list \<times> nat" where
  "check_single_name_limits env h e p t = single_name_loop env e (h ! positions p) [] t"

definition check_exposure_limits ::
  "pyenv \<Rightarrow> dict_store \<Rightarrow> RiskEngine \<Rightarrow> Portfolio \<Rightarrow> nat \<Rightarrow> RiskAlert list \<times> nat" where
  "check_exposure_limits env h e p t =
     (let gross_exposure = py_sum (map (\<lambda>(symbol, weight). fabs weight) (h ! positions p));
          net_exposure = py_sum (map snd (h ! positions p));
          (alerts1, t1) =
            (if fgt gross_exposure (gross (position_limits e)) then
               ([\<lparr> level = (if fgt gross_exposure (fmul (gross (position_limits e)) (Fin (11 / 10)))
                             then RED else ORANGE),
                    message = ''Gross exposure limit exceeded'',
                    metric = ''gross_exposure'',
                    current_value = gross_exposure,
                    limit_value = gross (position_limits e),
                    timestamp = now_at env t,
                    action_required = True \<rparr>], Suc t)
             else ([], t))
      in if fgt (fabs net_exposure) (net (position_limits e)) then
           (alerts1 @ [\<lparr> level = ORANGE,
                          message = ''Net exposure limit exceeded'',
                          metric = ''net_exposure'',
                          current_value = fabs net_exposure,
                          limit_value = net (position_limits e),
                          timestamp = now_at env t1,
                          action_required = False \<rparr>], Suc t1)
         else (alerts1, t1))"

text \<open>An exception of the VaR calculation is caught and logged: no alert.\<close>

definition check_var_limits ::
  "pyenv \<Rightarrow> RiskEngine \<Rightarrow> Portfolio \<Rightarrow> nat \<Rightarrow> RiskAlert list \<times> nat" where
  "check_var_limits env e p t =
     (case calculate_var env e p of
        Inl err \<Rightarrow> ([], t)
      | Inr var \<Rightarrow>
          let var_limit = Fin (2 / 100)
          in if fgt var var_limit then
               ([\<lparr> level = (if fgt var (fmul var_limit (Fin (15 / 10))) then RED else ORANGE),
                    message = ''VaR limit exceeded: '' @ fmt_pct env var,
                    metric = ''value_at_risk'',
                    current_value = var,
                    limit_value = var_limit,
                    timestamp = now_at env t,
                    action_required = True \<rparr>], Suc t)
             else ([], t))"

text \<open>\<^verbatim>\<open>DataFrame.empty\<close>: no column, or columns without rows.\<close>

definition df_empty :: "pyfloat list list \<Rightarrow> bool" where
  "df_empty cols = (case cols of [] \<Rightarrow> True | c # _ \<Rightarrow> c = [])"

definition check_correlation_limits ::
  "pyenv \<Rightarrow> RiskEngine \<Rightarrow> Portfolio \<Rightarrow> nat \<Rightarrow> RiskAlert list \<times> nat" where
  "check_correlation_limits env e p t =
     (if \<not> df_empty (correlation_matrix e) then
        let max_correlation =
              series_max (map (\<lambda>col. series_max (map fabs col)) (correlation_matrix e));
            correlation_threshold = dict_get (config e) ''correlation_threshold'' (Fin (3 / 10))
        in if fgt max_correlation correlation_threshold then
             ([\<lparr> level = ORANGE,
                  message = ''High correlation detected: '' @ fmt_f2 env max_correlation,
                  metric = ''strategy_correlation'',
                  current_value = max_correlation,
                  limit_value = correlation_threshold,
                  timestamp = now_at env t,
                  action_required = False \<rparr>], Suc t)
           else ([], t)
      else ([], t))"

text \<open>
  \<^verbatim>\<open>check_limits\<close> runs the four checks in order, appends their alerts to the
  engine's alert log and returns them.
\<close>

definition check_limits ::
  "pyenv \<Rightarrow> dict_store \<Rightarrow> RiskEngine \<Rightarrow> Portfolio \<Rightarrow> nat \<Rightarrow> RiskAlert list \<times> RiskEngine \<times> nat" where
  "check_limits env h e p t =
     (let (a1, t1) = check_single_name_limits env h e p t;
          (a2, t2) = check_exposure_limits env h e p t1;
          (a3, t3) = check_var_limits env e p t2;
          (a4, t4) = check_correlation_limits env e p t3;
          alerts = a1 @ a2 @ a3 @ a4
      in (alerts, e\<lparr>risk_alerts := risk_alerts e @ alerts\<rparr>, t4))"

section \<open>The circuit-breaker response\<close>

text \<open>\<^verbatim>\<open>d.copy()\<close> allocates a new dict object with the entries of \<open>d\<close>.\<close>

definition dict_copy :: "dict_store \<Rightarrow> addr \<Rightarrow> addr \<times> dict_store" where
  "dict_copy h a = (length h, h @ [h ! a])"

definition dict_getitem :: "pydict \<Rightarrow> string \<Rightarrow> py_error + pyfloat" where
  "dict_getitem d k = (case map_of d k of None \<Rightarrow> Inl KeyError | Some v \<Rightarrow> Inr v)"

text \<open>\<^verbatim>\<open>d[k] = v\<close>: the entry of an existing key is replaced in place, a new key goes last.\<close>

definition dict_setitem :: "pydict \<Rightarrow> string \<Rightarrow> pyfloat \<Rightarrow> pydict" where
  "dict_setitem d k v =
     (if k \<in> set (map fst d) then map (\<lambda>(k', v'). if k' = k then (k', v) else (k', v')) d
      else d @ [(k, v)])"

text \<open>
  \<^verbatim>\<open>for symbol in adjusted_positions: adjusted_positions[symbol] *= c\<close>, on the dict
  object at address \<open>a\<close>: each step reads the entry and writes the product back.
\<close>

fun scale_loop :: "pyfloat \<Rightarrow> addr \<Rightarrow> string list \<Rightarrow> dict_store \<Rightarrow> py_error + dict_store" where
  "scale_loop c a [] h = Inr h"
| "scale_loop c a (symbol # rest) h =
     (case dict_getitem (h ! a) symbol of
        Inl err \<Rightarrow> Inl err
      | Inr w \<Rightarrow> scale_loop c a rest (h[a := dict_setitem (h ! a) symbol (fmul w c)]))"

definition scale_in_place :: "pyfloat \<Rightarrow> addr \<Rightarrow> dict_store \<Rightarrow> py_error + dict_store" where
  "scale_in_place c a h = scale_loop c a (map fst (h ! a)) h"

text \<open>
  \<^verbatim>\<open>apply_circuit_breaker\<close> returns the address of the adjusted dict, with the engine
  and the store of dicts after the call. Its log lines are not modelled.
\<close>

definition apply_circuit_breaker ::
  "RiskEngine \<times> dict_store \<Rightarrow> Portfolio \<Rightarrow> CircuitBreakerLevel
     \<Rightarrow> py_error + (addr \<times> RiskEngine \<times> dict_store)" where
  "apply_circuit_breaker w p lvl =
     (let (e, h) = w;
          (adjusted_positions, h1) = dict_copy h (positions p)
      in case lvl of
           LEVEL_1 \<Rightarrow>
             (case scale_in_place (Fin (1 / 2)) adjusted_positions h1 of
                Inl err \<Rightarrow> Inl err
              | Inr h2 \<Rightarrow> Inr (adjusted_positions, e, h2))
         | LEVEL_2 \<Rightarrow>
             (let gross_exposure = py_sum (map (\<lambda>(symbol, weight). fabs weight) (h1 ! adjusted_positions))
              in if fgt gross_exposure (Fin 0) then
                   (case py_truediv (Fin (25 / 100)) gross_exposure of
                      Inl err \<Rightarrow> Inl err
                    | Inr scale_factor \<Rightarrow>
                        (case scale_in_place scale_factor adjusted_positions h1 of
                           Inl err \<Rightarrow> Inl err
                         | Inr h2 \<Rightarrow> Inr (adjusted_positions, e, h2)))
                 else Inr (adjusted_positions, e, h1))
         | LEVEL_3 \<Rightarrow>
             (case scale_in_place (Fin (25 / 100)) adjusted_positions h1 of
                Inl err \<Rightarrow> Inl err
              | Inr h2 \<Rightarrow> Inr (adjusted_positions, e, h2))
         | NONE \<Rightarrow> Inr (adjusted_positions, e, h1))"

text \<open>The gross exposure of a dict of weights: the sum of their absolute values.\<close>

definition gross_exposure_of :: "pydict \<Rightarrow> pyfloat" where
  "gross_exposure_of d = py_sum (map (\<lambda>(symbol, weight). fabs weight) d)"

section \<open>Quantities the theorems are stated with\<close>

text \<open>
  The two scores that \<^verbatim>\<open>detect_regime\<close> classifies, as it computes them from the
  close prices, and the table of the four labels.
\<close>

definition current_trend_of :: "pyenv \<Rightarrow> pyfloat list \<Rightarrow> pyfloat" where
  "current_trend_of env close =
     (let returns = pct_change (pct_pad env) close;
          trend_score = map2 fdiv (rolling 20 window_mean returns) (rolling 20 window_std returns)
      in if trend_score \<noteq> [] then last trend_score else Fin 0)"

definition current_vol_of :: "pyenv \<Rightarrow> pyfloat list \<Rightarrow> pyfloat" where
  "current_vol_of env close =
     (let returns = pct_change (pct_pad env) close;
          vol_score = map (\<lambda>s. fmul s (Fin (sqrt 252))) (rolling 20 window_std returns)
      in if vol_score \<noteq> [] then last vol_score else Fin 0)"

definition regime_label :: "bool \<Rightarrow> bool \<Rightarrow> string" where
  "regime_label trending calm =
     (if trending then (if calm then ''TREND_LOW_VOL'' else ''TREND_HIGH_VOL'')
      else (if calm then ''CHOP_LOW_VOL'' else ''CHOP_HIGH_VOL''))"

text \<open>An alert with its timestamp blanked: what is left are the other six fields.\<close>

definition without_timestamp :: "RiskAlert \<Rightarrow> RiskAlert" where
  "without_timestamp a = a\<lparr>timestamp := 0\<rparr>"

text \<open>
  The 30-day drawdown as the specification words it, on a window of NAV values: the
  running maximum up to each point, the drawdown \<open>(nav - running_max) / running_max\<close>
  at each point, and the minimum of the drawdowns.
\<close>

definition running_max_spec :: "real list \<Rightarrow> nat \<Rightarrow> real" where
  "running_max_spec xs i = Max (set (take (Suc i) xs))"

definition drawdown_spec :: "real list \<Rightarrow> real" where
  "drawdown_spec xs =
     Min ((\<lambda>i. (xs ! i - running_max_spec xs i) / running_max_spec xs i) ` {..<length xs})"

text \<open>
  The response function as the specification words it, on the dict of weights: every
  weight multiplied by 0.5 at LEVEL_1 and by 0.25 at LEVEL_3, by \<open>0.25 / gross\<close> at
  LEVEL_2 when the gross exposure is positive, and the positions unchanged otherwise.
\<close>

definition scaled :: "pyfloat \<Rightarrow> pydict \<Rightarrow> pydict" where
  "scaled c d = map (\<lambda>(symbol, weight). (symbol, fmul weight c)) d"

definition response_spec :: "pydict \<Rightarrow> CircuitBreakerLevel \<Rightarrow> pydict" where
  "response_spec d lvl =
     (case lvl of
        NONE \<Rightarrow> d
      | LEVEL_1 \<Rightarrow> scaled (Fin (1 / 2)) d
      | LEVEL_2 \<Rightarrow>
          if fgt (gross_exposure_of d) (Fin 0)
          then scaled (fdiv (Fin (25 / 100)) (gross_exposure_of d)) d else d
      | LEVEL_3 \<Rightarrow> scaled (Fin (25 / 100)) d)"

text \<open>A dict whose weights are the given real numbers.\<close>

definition weights_dict :: "(string \<times> real) list \<Rightarrow> pydict" where
  "weights_dict ws = map (\<lambda>(symbol, x). (symbol, Fin x)) ws"



text \<open>
  Value at risk as the specification words it, on a window of NAV values: the simple
  period-over-period returns, without the first, undefined one, and their percentile by
  linear interpolation between the two order statistics around the index
  \<open>(n - 1) * q / 100\<close>.
\<close>

definition returns_spec :: "real list \<Rightarrow> real list" where
  "returns_spec xs = map2 (\<lambda>cur prev. (cur - prev) / prev) (tl xs) xs"

definition percentile_spec :: "real list \<Rightarrow> real \<Rightarrow> real" where
  "percentile_spec rs q =
     (let srt = sort rs;
          n = length rs;
          vi = real (n - 1) * (q / 100);
          lo = nat \<lfloor>vi\<rfloor>;
          hi = min (lo + 1) (n - 1)
      in srt ! lo + (vi - real lo) * (srt ! hi - srt ! lo))"

section \<open>Sample inputs\<close>

text \<open>Concrete engines, snapshots and histories on which the theorems below are run.\<close>

definition sample_portfolio :: "pyfloat \<Rightarrow> pyfloat \<Rightarrow> Portfolio" where
  "sample_portfolio n pnl =
     \<lparr> positions = 0, nav = n, cash = Fin 0, snapshot_time = 0, daily_pnl = Fin 0, daily_pnl_pct = pnl \<rparr>"

definition default_engine :: RiskEngine where
  "default_engine = projr (RiskEngine_init None)"

definition day :: "nat \<Rightarrow> Portfolio" where
  "day k = sample_portfolio (Fin (real k)) (Fin 0)"

text \<open>Thirty snapshots: a NAV of 100, then 50 for 29 days.\<close>

definition crash_history :: "Portfolio list" where
  "crash_history = sample_portfolio (Fin 100) (Fin 0) # replicate 29 (sample_portfolio (Fin 50) (Fin 0))"

text \<open>A clock that reads \<open>k\<close> at its \<open>k\<close>-th reading.\<close>

definition sample_env :: pyenv where
  "sample_env = \<lparr> now_at = int, pct_pad = False, fmt_pct = (\<lambda>x. ''?''), fmt_f2 = (\<lambda>x. ''?'') \<rparr>"

text \<open>Twenty-one close prices that alternate between 100 and 101.\<close>

definition zigzag :: "pyfloat list" where
  "zigzag = map (\<lambda>k. if even k then Fin 100 else Fin 101) [0..<21]"

text \<open>A store with one dict: a single position of 5% of NAV.\<close>

definition aapl_store :: dict_store where
  "aapl_store = [[(''AAPL'', Fin (5 / 100))]]"

text \<open>A clock that stands still.\<close>

definition frozen_env :: pyenv where
  "frozen_env = \<lparr> now_at = (\<lambda>k. 7), pct_pad = False, fmt_pct = (\<lambda>x. ''?''), fmt_f2 = (\<lambda>x. ''?'') \<rparr>"

text \<open>A store with two dicts: a long and a short position, and a flat book.\<close>

definition pair_store :: dict_store where
  "pair_store = [weights_dict [(''AAPL'', 3 / 10), (''MSFT'', - (2 / 10))], weights_dict [(''CASH'', 0)]]"

text \<open>
  Thirty snapshots each: a NAV that triples every day; a NAV that halves three times
  and then stays; a NAV that is NaN throughout.
\<close>

definition boom_history :: "Portfolio list" where
  "boom_history = map (\<lambda>k. sample_portfolio (Fin (3 ^ k)) (Fin 0)) [0..<30]"

definition slump_navs :: "real list" where
  "slump_navs = [100, 50, 25] @ replicate 27 (25 / 2)"

definition slump_history :: "Portfolio list" where
  "slump_history = map (\<lambda>x. sample_portfolio (Fin x) (Fin 0)) slump_navs"

definition nan_history :: "Portfolio list" where
  "nan_history = replicate 30 (sample_portfolio NaN (Fin 0))"

section \<open>The history buffer is bounded and first-in first-out\<close>

lemma history_after_update:
  "portfolio_history (update_portfolio_history e p) =
     (if length (portfolio_history e) < 252 then portfolio_history e @ [p]
      else drop (length (portfolio_history e) - 251) (portfolio_history e) @ [p])"
  by (simp add: update_portfolio_history_def py_last_def Let_def)

lemma py_last_snoc_bounded:
  "py_last n (py_last n xs @ [x]) = py_last n (xs @ [x])"
  by (cases "length xs \<le> n") (auto simp: py_last_def Suc_diff_le)

lemma history_update_py_last:
  "portfolio_history (update_portfolio_history e p) = py_last 252 (portfolio_history e @ [p])"
  by (simp add: update_portfolio_history_def py_last_def Let_def)

lemma history_record_all:
  "ps \<noteq> [] \<Longrightarrow> portfolio_history (record_all e ps) = py_last 252 (portfolio_history e @ ps)"
proof (induction ps arbitrary: e rule: rev_induct)
  case Nil
  then show ?case by simp
next
  case (snoc p ps)
  show ?case
  proof (cases "ps = []")
    case True
    then show ?thesis by (simp add: record_all_def history_update_py_last)
  next
    case False
    then have "portfolio_history (record_all e ps) = py_last 252 (portfolio_history e @ ps)"
      by (rule snoc.IH)
    then show ?thesis
      using py_last_snoc_bounded [of 252 "portfolio_history e @ ps" p]
      by (simp add: record_all_def history_update_py_last)
  qed
qed

text \<open>
  Claim C3. After \<^verbatim>\<open>update_portfolio_history\<close> the history has
  \<open>min (previous length + 1) 252\<close> entries and the new snapshot is last. Below the
  capacity the snapshot is appended; on a full buffer the oldest entry is dropped and
  the others keep their order. Starting from an empty history, after one call per
  snapshot of a list the history is the last 252 snapshots of the list, in their order:
  the 253rd call evicts the first snapshot recorded.
\<close>

theorem history_bounded_fifo:
  "length (portfolio_history (update_portfolio_history e p)) = min (length (portfolio_history e) + 1) 252
   \<and> last (portfolio_history (update_portfolio_history e p)) = p
   \<and> (length (portfolio_history e) < 252 \<longrightarrow>
        portfolio_history (update_portfolio_history e p) = portfolio_history e @ [p])
   \<and> (length (portfolio_history e) = 252 \<longrightarrow>
        portfolio_history (update_portfolio_history e p) = tl (portfolio_history e) @ [p])
   \<and> (portfolio_history e = [] \<longrightarrow>
        portfolio_history (record_all e ps) = py_last 252 ps)"
proof -
  have "length (portfolio_history (update_portfolio_history e p)) = min (length (portfolio_history e) + 1) 252"
    by (simp add: history_after_update)
  moreover have "last (portfolio_history (update_portfolio_history e p)) = p"
    by (simp add: history_after_update)
  moreover have "length (portfolio_history e) = 252 \<Longrightarrow>
        portfolio_history (update_portfolio_history e p) = tl (portfolio_history e) @ [p]"
    by (simp add: history_after_update drop_Suc)
  moreover have "portfolio_history e = [] \<Longrightarrow> portfolio_history (record_all e ps) = py_last 252 ps"
    by (cases "ps = []") (simp_all add: history_record_all, simp add: record_all_def py_last_def)
  ultimately show ?thesis by (simp add: history_after_update)
qed

theorem history_bounded_fifo_witness:
  "length (portfolio_history (default_engine\<lparr>portfolio_history := map day [0..<252]\<rparr>)) = 252
   \<and> portfolio_history (update_portfolio_history (default_engine\<lparr>portfolio_history := map day [0..<252]\<rparr>) (day 252))
       = map day [1..<253]
   \<and> length (portfolio_history (default_engine\<lparr>portfolio_history := [day 0]\<rparr>)) < 252
   \<and> portfolio_history (update_portfolio_history (default_engine\<lparr>portfolio_history := [day 0]\<rparr>) (day 1))
       = [day 0, day 1]
   \<and> portfolio_history default_engine = []
   \<and> portfolio_history (record_all default_engine (map day [0..<253])) = map day [1..<253]"
proof -
  let ?full = "default_engine\<lparr>portfolio_history := map day [0..<252]\<rparr>"
  let ?one = "default_engine\<lparr>portfolio_history := [day 0]\<rparr>"
  have e: "portfolio_history default_engine = []"
    by (simp add: default_engine_def RiskEngine_init_def)
  have up: "[1..<253] = [1..<252] @ [252]"
    using upt_Suc_append [of 1 252] by simp
  have t: "tl (map day [0..<252]) = map day [1..<252]"
    by (simp add: map_tl [symmetric] del: map_tl)
  have l: "py_last 252 (map day [0..<253]) = map day [1..<253]"
    by (simp add: py_last_def drop_map)
  from history_bounded_fifo [of ?full "day 252" "[]"] t up
  have a: "portfolio_history (update_portfolio_history ?full (day 252)) = map day [1..<253]"
    by simp
  from history_bounded_fifo [of ?one "day 1" "[]"]
  have b: "portfolio_history (update_portfolio_history ?one (day 1)) = [day 0, day 1]"
    by simp
  from history_bounded_fifo [of default_engine "day 0" "map day [0..<253]"] e l
  have c: "portfolio_history (record_all default_engine (map day [0..<253])) = map day [1..<253]"
    by simp
  from a b c e show ?thesis by simp
qed

section \<open>The priority order of the circuit breakers\<close>

text \<open>
  Claim C1. \<^verbatim>\<open>check_breakers\<close> tests its conditions in order and the first that
  holds decides: LEVEL_2 when the daily loss reaches the second threshold, whatever the
  history and its drawdown; else LEVEL_1 when it reaches the first; else LEVEL_3 when
  the 30-day drawdown reaches its threshold; else NONE. The level returned is the one
  stored in the engine. With the default thresholds a daily return of \<open>-0.025\<close> gives
  LEVEL_2 for every history.
\<close>

theorem check_breakers_priority:
  "fst (check_breakers e p) =
     (if fle (daily_pnl_pct p) (daily_loss_2 (circuit_breakers e)) then LEVEL_2
      else if fle (daily_pnl_pct p) (daily_loss_1 (circuit_breakers e)) then LEVEL_1
      else if fle (calculate_30day_drawdown e p) (drawdown_30d (circuit_breakers e)) then LEVEL_3
      else NONE)
   \<and> current_breaker_level (snd (check_breakers e p)) = fst (check_breakers e p)
   \<and> (circuit_breakers e = circuit_breakers default_engine \<and> daily_pnl_pct p = Fin (- (25 / 1000))
        \<longrightarrow> fst (check_breakers e p) = LEVEL_2)"
  by (simp add: check_breakers_def Let_def default_engine_def RiskEngine_init_def
      get_default_config_def dict_get_def)

text \<open>
  On the history that lost half its value, a drawdown of \<open>-0.5\<close> would give LEVEL_3:
  the daily loss of \<open>-0.025\<close> masks it.
\<close>

theorem check_breakers_priority_witness:
  "circuit_breakers (default_engine\<lparr>portfolio_history := crash_history\<rparr>) = circuit_breakers default_engine
   \<and> daily_pnl_pct (sample_portfolio (Fin 50) (Fin (- (25 / 1000)))) = Fin (- (25 / 1000))
   \<and> fle (calculate_30day_drawdown (default_engine\<lparr>portfolio_history := crash_history\<rparr>)
            (sample_portfolio (Fin 50) (Fin (- (25 / 1000)))))
          (drawdown_30d (circuit_breakers default_engine))
   \<and> fst (check_breakers (default_engine\<lparr>portfolio_history := crash_history\<rparr>)
            (sample_portfolio (Fin 50) (Fin (- (25 / 1000))))) = LEVEL_2
   \<and> fst (check_breakers (default_engine\<lparr>portfolio_history := crash_history\<rparr>)
            (sample_portfolio (Fin 50) (Fin (- (16 / 1000))))) = LEVEL_1
   \<and> fst (check_breakers (default_engine\<lparr>portfolio_history := crash_history\<rparr>)
            (sample_portfolio (Fin 50) (Fin 0))) = LEVEL_3
   \<and> fst (check_breakers default_engine (sample_portfolio (Fin 50) (Fin 0))) = NONE"
proof -
  let ?e = "default_engine\<lparr>portfolio_history := crash_history\<rparr>"
  have cb: "circuit_breakers default_engine =
      \<lparr> daily_loss_1 = Fin (- (15 / 1000)), daily_loss_2 = Fin (- (20 / 1000)),
        drawdown_30d = Fin (- (120 / 1000)) \<rparr>"
    by (simp add: default_engine_def RiskEngine_init_def get_default_config_def dict_get_def)
  have dd: "calculate_30day_drawdown ?e p = Fin (- (1 / 2))" for p
    by code_simp
  have dd0: "calculate_30day_drawdown default_engine p = Fin 0" for p
    by (simp add: calculate_30day_drawdown_def default_engine_def RiskEngine_init_def)
  have h1: "circuit_breakers ?e = circuit_breakers default_engine"
    by simp
  have h2: "daily_pnl_pct (sample_portfolio (Fin 50) (Fin (- (25 / 1000)))) = Fin (- (25 / 1000))"
    by (simp add: sample_portfolio_def)
  have l2: "fst (check_breakers ?e (sample_portfolio (Fin 50) (Fin (- (25 / 1000))))) = LEVEL_2"
    using check_breakers_priority [of ?e "sample_portfolio (Fin 50) (Fin (- (25 / 1000)))"] h1 h2
    by blast
  have l1: "fst (check_breakers ?e (sample_portfolio (Fin 50) (Fin (- (16 / 1000))))) = LEVEL_1"
    using check_breakers_priority [of ?e "sample_portfolio (Fin 50) (Fin (- (16 / 1000)))"]
    by (simp add: sample_portfolio_def cb)
  have l3: "fst (check_breakers ?e (sample_portfolio (Fin 50) (Fin 0))) = LEVEL_3"
    using check_breakers_priority [of ?e "sample_portfolio (Fin 50) (Fin 0)"]
    by (simp add: sample_portfolio_def cb dd)
  have l0: "fst (check_breakers default_engine (sample_portfolio (Fin 50) (Fin 0))) = NONE"
    using check_breakers_priority [of default_engine "sample_portfolio (Fin 50) (Fin 0)"]
    by (simp add: sample_portfolio_def cb dd0)
  from l2 l1 l3 l0 h1 h2 show ?thesis
    by (simp add: cb dd)
qed

section \<open>Construction accepts every configuration\<close>

text \<open>
  Claim C6 says that construction raises on a configuration with a value that is not
  finite. It does not: with \<open>daily_loss_2\<close> configured as NaN the constructor returns
  an engine that holds NaN as its threshold, and the engine runs: a daily return of
  \<open>-0.5\<close> is then classified LEVEL_1, since no number is below NaN.
\<close>

theorem init_accepts_nan_counterexample:
  "\<not> is_finite NaN
   \<and> RiskEngine_init (Some [(''daily_loss_2'', NaN)]) =
       Inr \<lparr> config = [(''daily_loss_2'', NaN)],
             position_limits = \<lparr> single_name = Fin (3 / 100), sector = Fin (15 / 100),
                                 gross = Fin (150 / 100), net = Fin (50 / 100) \<rparr>,
             circuit_breakers = \<lparr> daily_loss_1 = Fin (- (15 / 1000)), daily_loss_2 = NaN,
                                  drawdown_30d = Fin (- (120 / 1000)) \<rparr>,
             var_confidence = Fin (95 / 100),
             var_horizon = Fin 1,
             current_breaker_level = NONE,
             risk_alerts = [],
             portfolio_history = [],
             correlation_matrix = [] \<rparr>
   \<and> fst (check_breakers (projr (RiskEngine_init (Some [(''daily_loss_2'', NaN)])))
            (sample_portfolio (Fin 100) (Fin (- (1 / 2))))) = LEVEL_1"
  by (simp add: RiskEngine_init_def dict_get_def check_breakers_def sample_portfolio_def)

text \<open>
  Claim C6, amended. Construction never raises and validates nothing. The engine keeps
  the configuration given, or the defaults for \<^verbatim>\<open>None\<close> and for the empty dict; every
  limit and threshold is the value stored under its key, finite or not, and the default
  when the key is absent; the state starts empty.
\<close>

theorem init_total_unvalidated:
  "(\<exists>e. RiskEngine_init cfg = Inr e
       \<and> config e = (case cfg of None \<Rightarrow> get_default_config
                     | Some c \<Rightarrow> if c = [] then get_default_config else c)
       \<and> single_name (position_limits e) = dict_get (config e) ''single_name_limit'' (Fin (3 / 100))
       \<and> sector (position_limits e) = dict_get (config e) ''sector_limit'' (Fin (15 / 100))
       \<and> gross (position_limits e) = dict_get (config e) ''gross_limit'' (Fin (150 / 100))
       \<and> net (position_limits e) = dict_get (config e) ''net_limit'' (Fin (50 / 100))
       \<and> daily_loss_1 (circuit_breakers e) = dict_get (config e) ''daily_loss_1'' (Fin (- (15 / 1000)))
       \<and> daily_loss_2 (circuit_breakers e) = dict_get (config e) ''daily_loss_2'' (Fin (- (20 / 1000)))
       \<and> drawdown_30d (circuit_breakers e) = dict_get (config e) ''drawdown_30d'' (Fin (- (120 / 1000)))
       \<and> var_confidence e = dict_get (config e) ''var_confidence'' (Fin (95 / 100))
       \<and> current_breaker_level e = NONE \<and> risk_alerts e = [] \<and> portfolio_history e = []
       \<and> correlation_matrix e = [])
   \<and> (map_of c k = Some v \<longrightarrow>
        config (projr (RiskEngine_init (Some c))) = c
        \<and> dict_get (config (projr (RiskEngine_init (Some c)))) k dflt = v)"
  by (auto simp: RiskEngine_init_def dict_get_def Let_def split: option.splits)

theorem init_total_unvalidated_witness:
  "map_of [(''gross_limit'', PInf)] ''gross_limit'' = Some PInf
   \<and> gross (position_limits (projr (RiskEngine_init (Some [(''gross_limit'', PInf)])))) = PInf
   \<and> dict_get (config (projr (RiskEngine_init (Some [(''gross_limit'', PInf)])))) ''gross_limit'' (Fin (150 / 100)) = PInf"
proof -
  have m: "map_of [(''gross_limit'', PInf)] ''gross_limit'' = Some PInf"
    by simp
  from init_total_unvalidated [of "Some [(''gross_limit'', PInf)]" "[(''gross_limit'', PInf)]"
      "''gross_limit''" PInf "Fin (150 / 100)"] m
  have d: "dict_get (config (projr (RiskEngine_init (Some [(''gross_limit'', PInf)])))) ''gross_limit'' (Fin (150 / 100)) = PInf"
    by blast
  from init_total_unvalidated [of "Some [(''gross_limit'', PInf)]" "[(''gross_limit'', PInf)]"
      "''gross_limit''" PInf "Fin (150 / 100)"]
  have "gross (position_limits (projr (RiskEngine_init (Some [(''gross_limit'', PInf)])))) =
     dict_get (config (projr (RiskEngine_init (Some [(''gross_limit'', PInf)])))) ''gross_limit'' (Fin (150 / 100))"
    by auto
  with m d show ?thesis by simp
qed

section \<open>Regime detection never raises\<close>

lemma detect_regime_try_label:
  "detect_regime_try env market_data =
     (case map_of market_data ''close'' of
        None \<Rightarrow> Inl KeyError
      | Some close \<Rightarrow>
          if fgt (current_trend_of env close) (Fin (1 / 10)) \<and> flt (current_vol_of env close) (Fin (20 / 100))
          then Inr ''TREND_LOW_VOL''
          else if fgt (current_trend_of env close) (Fin (1 / 10)) \<and> fge (current_vol_of env close) (Fin (20 / 100))
          then Inr ''TREND_HIGH_VOL''
          else if fle (current_trend_of env close) (Fin (1 / 10)) \<and> flt (current_vol_of env close) (Fin (20 / 100))
          then Inr ''CHOP_LOW_VOL''
          else Inr ''CHOP_HIGH_VOL'')"
  by (simp add: detect_regime_try_def df_column_def current_trend_of_def current_vol_of_def Let_def
      split: option.splits)

lemma not_nan_fle_total: "\<not> is_nan a \<Longrightarrow> \<not> is_nan b \<Longrightarrow> fle a b \<or> fle b a"
  by (cases a; cases b) auto

lemma fle_antisym: "fle a b \<Longrightarrow> fle b a \<Longrightarrow> a = b"
  by (cases a; cases b) auto

lemma fle_refl: "\<not> is_nan a \<Longrightarrow> fle a a"
  by (cases a) auto

lemma not_nan_fge_iff: "\<not> is_nan a \<Longrightarrow> \<not> is_nan b \<Longrightarrow> fge a b = (\<not> flt a b)"
  using not_nan_fle_total [of a b] fle_antisym [of a b] fle_refl [of a]
  by (auto simp: fge_def flt_def)

lemma not_nan_fle_iff: "\<not> is_nan a \<Longrightarrow> \<not> is_nan b \<Longrightarrow> fle a b = (\<not> fgt a b)"
  using not_nan_fle_total [of a b] fle_antisym [of a b] fle_refl [of a]
  by (auto simp: fgt_def flt_def)

text \<open>
  Claim C5 says that insufficient data yields \<^verbatim>\<open>UNKNOWN\<close>. A close column without rows
  is classified: both scores take the value 0 that the code gives an empty series, and
  the label is \<^verbatim>\<open>CHOP_LOW_VOL\<close>. A single price, too short for any return, gives NaN
  scores and falls through the comparisons to \<^verbatim>\<open>CHOP_HIGH_VOL\<close>.
\<close>

theorem detect_regime_short_counterexample:
  "detect_regime sample_env [(''close'', [])] = ''CHOP_LOW_VOL''
   \<and> detect_regime sample_env [(''close'', [Fin 100])] = ''CHOP_HIGH_VOL''"
  by (simp add: detect_regime_def detect_regime_try_def df_column_def pct_change_def sample_env_def
      rolling_def inf_to_nan_def fgt_def flt_def fge_def)

text \<open>
  Claim C5, amended. \<^verbatim>\<open>detect_regime\<close> never raises: it returns one of five labels.
  An exception inside the computation, here a frame without a close column, gives
  \<^verbatim>\<open>UNKNOWN\<close>. A close column without rows gives \<^verbatim>\<open>CHOP_LOW_VOL\<close>. When the latest
  trend and volatility scores are numbers, the label is the one of the table: trending
  when the trend score exceeds 0.1, calm when the volatility score is below 0.20.
\<close>

theorem detect_regime_total:
  "detect_regime env market_data \<in>
     {''TREND_LOW_VOL'', ''TREND_HIGH_VOL'', ''CHOP_LOW_VOL'', ''CHOP_HIGH_VOL'', ''UNKNOWN''}
   \<and> (map_of market_data ''close'' = None \<longrightarrow> detect_regime env market_data = ''UNKNOWN'')
   \<and> (map_of market_data ''close'' = Some [] \<longrightarrow> detect_regime env market_data = ''CHOP_LOW_VOL'')
   \<and> (map_of market_data ''close'' = Some close
        \<and> \<not> is_nan (current_trend_of env close) \<and> \<not> is_nan (current_vol_of env close) \<longrightarrow>
      detect_regime env market_data =
        regime_label (fgt (current_trend_of env close) (Fin (1 / 10)))
                     (flt (current_vol_of env close) (Fin (20 / 100))))"
proof -
  have a: "detect_regime env market_data \<in>
     {''TREND_LOW_VOL'', ''TREND_HIGH_VOL'', ''CHOP_LOW_VOL'', ''CHOP_HIGH_VOL'', ''UNKNOWN''}"
    by (simp add: detect_regime_def detect_regime_try_label split: option.splits)
  have b: "map_of market_data ''close'' = None \<Longrightarrow> detect_regime env market_data = ''UNKNOWN''"
    by (simp add: detect_regime_def detect_regime_try_label)
  have z: "current_trend_of env [] = Fin 0" "current_vol_of env [] = Fin 0"
    by (simp_all add: current_trend_of_def current_vol_of_def pct_change_def rolling_def)
  have c: "map_of market_data ''close'' = Some [] \<Longrightarrow> detect_regime env market_data = ''CHOP_LOW_VOL''"
    by (simp add: detect_regime_def detect_regime_try_label z fgt_def flt_def fge_def)
  have d: "detect_regime env market_data =
        regime_label (fgt (current_trend_of env close) (Fin (1 / 10)))
                     (flt (current_vol_of env close) (Fin (20 / 100)))"
    if "map_of market_data ''close'' = Some close"
      and "\<not> is_nan (current_trend_of env close)" and "\<not> is_nan (current_vol_of env close)"
    using that
      not_nan_fge_iff [of "current_vol_of env close" "Fin (20 / 100)"]
      not_nan_fle_iff [of "current_trend_of env close" "Fin (1 / 10)"]
    by (simp add: detect_regime_def detect_regime_try_label regime_label_def)
  from a b c d show ?thesis by blast
qed

lemma length_rolling: "length (rolling n f xs) = length xs"
  by (simp add: rolling_def)

lemma rolling_Nil_iff: "rolling n f xs = [] \<longleftrightarrow> xs = []"
  by (simp add: rolling_def)

lemma last_map2:
  "xs \<noteq> [] \<Longrightarrow> length xs = length ys \<Longrightarrow> last (map2 f xs ys) = f (last xs) (last ys)"
  by (cases xs rule: rev_cases; cases ys rule: rev_cases) auto

lemma last_rolling:
  "xs \<noteq> [] \<Longrightarrow> last (rolling n f xs) =
     (let vals = reals_of (map inf_to_nan (py_last n xs))
      in if length vals < n then NaN else f vals)"
proof -
  assume ne: "xs \<noteq> []"
  then have u: "[0..<length xs] = [0..<length xs - 1] @ [length xs - 1]"
    by (metis Suc_diff_1 length_greater_0_conv upt_Suc_append zero_le)
  have s: "Suc (length xs - Suc 0) = length xs"
    using ne by simp
  show ?thesis
    unfolding rolling_def by (subst u) (simp add: s py_last_def Let_def)
qed

lemma zz_returns:
  "pct_change False zigzag =
     NaN # concat (replicate 10 [Fin (1 / 100), Fin (- (1 / 101))])"
  by code_simp

lemma zz_window:
  "reals_of (map inf_to_nan (py_last 20 (pct_change False zigzag))) =
     concat (replicate 10 [1 / 100, - (1 / 101)])"
  by code_simp

lemma zz_mean: "window_mean (concat (replicate 10 [1 / 100, - (1 / 101)])) = Fin (1 / 20200)"
  by code_simp

lemma zz_len: "length (concat (replicate 10 [1 / 100, - (1 / 101 :: real)])) = 20"
  by code_simp

lemma zz_var:
  "(let rs = concat (replicate 10 [1 / 100, - (1 / 101 :: real)]); m = sum_list rs / real (length rs)
    in sum_list (map (\<lambda>r. (r - m)\<^sup>2) rs) / (real (length rs) - 1)) = 40401 / 387638000"
  by code_simp


lemma zz_trend: "current_trend_of sample_env zigzag = Fin (1 / 20200 / sqrt (40401 / 387638000))"
proof -
  have ne: "pct_change False zigzag \<noteq> []"
    by (simp add: zz_returns)
  have m: "last (rolling 20 window_mean (pct_change False zigzag)) = Fin (1 / 20200)"
    by (simp add: last_rolling [OF ne] zz_window zz_len zz_mean Let_def)
  have sd: "last (rolling 20 window_std (pct_change False zigzag)) = Fin (sqrt (40401 / 387638000))"
    using zz_var
    by (simp add: last_rolling [OF ne] zz_window zz_len window_std_def Let_def)
  have l: "last (map2 fdiv (rolling 20 window_mean (pct_change False zigzag))
                          (rolling 20 window_std (pct_change False zigzag)))
           = fdiv (last (rolling 20 window_mean (pct_change False zigzag)))
                  (last (rolling 20 window_std (pct_change False zigzag)))"
    using ne by (simp add: last_map2 rolling_Nil_iff length_rolling)
  show ?thesis
    using ne by (simp add: current_trend_of_def sample_env_def Let_def l m sd rolling_Nil_iff)
qed

lemma zz_vol: "current_vol_of sample_env zigzag = Fin (sqrt (40401 / 387638000) * sqrt 252)"
proof -
  have ne: "pct_change False zigzag \<noteq> []"
    by (simp add: zz_returns)
  have sd: "last (rolling 20 window_std (pct_change False zigzag)) = Fin (sqrt (40401 / 387638000))"
    using zz_var
    by (simp add: last_rolling [OF ne] zz_window zz_len window_std_def Let_def)
  show ?thesis
    using ne by (simp add: current_vol_of_def sample_env_def Let_def sd last_map rolling_Nil_iff)
qed


lemma zz_sqrt_lower: "1 / 2020 \<le> sqrt (40401 / 387638000)"
  by (rule real_le_rsqrt) (simp add: power2_eq_square)

lemma zz_trend_small: "\<not> fgt (current_trend_of sample_env zigzag) (Fin (1 / 10))"
proof -
  have pos: "0 < sqrt (40401 / 387638000 :: real)"
    by simp
  have "1 / 20200 / sqrt (40401 / 387638000) \<le> 1 / 20200 / (1 / 2020 :: real)"
    using zz_sqrt_lower by (intro divide_left_mono) simp_all
  then have "1 / 20200 / sqrt (40401 / 387638000) \<le> (1 / 10 :: real)"
    by simp
  then show ?thesis
    by (simp add: zz_trend fgt_def flt_def)
qed

lemma zz_vol_small: "flt (current_vol_of sample_env zigzag) (Fin (20 / 100))"
proof -
  have "sqrt (40401 / 387638000) * sqrt 252 = sqrt (40401 / 387638000 * 252)"
    by (rule real_sqrt_mult [symmetric])
  moreover have "sqrt (40401 / 387638000 * 252) < (1 / 5 :: real)"
    by (rule real_less_lsqrt) (simp_all add: power2_eq_square)
  ultimately have "sqrt (40401 / 387638000) * sqrt 252 < (1 / 5 :: real)"
    by simp
  then show ?thesis
    by (simp add: zz_vol flt_def)
qed

theorem detect_regime_total_witness:
  "map_of ([(''open'', [Fin 100])] :: dataframe) ''close'' = None
   \<and> detect_regime sample_env [(''open'', [Fin 100])] = ''UNKNOWN''
   \<and> map_of ([(''close'', [])] :: dataframe) ''close'' = Some []
   \<and> detect_regime sample_env [(''close'', [])] = ''CHOP_LOW_VOL''
   \<and> map_of [(''close'', zigzag)] ''close'' = Some zigzag
   \<and> \<not> is_nan (current_trend_of sample_env zigzag)
   \<and> \<not> is_nan (current_vol_of sample_env zigzag)
   \<and> detect_regime sample_env [(''close'', zigzag)] = ''CHOP_LOW_VOL''"
proof -
  have a: "map_of ([(''open'', [Fin 100])] :: dataframe) ''close'' = None"
    by simp
  have b: "map_of ([(''close'', [])] :: dataframe) ''close'' = Some []"
    by simp
  have c: "map_of [(''close'', zigzag)] ''close'' = Some zigzag"
    by simp
  have n1: "\<not> is_nan (current_trend_of sample_env zigzag)"
    by (simp add: zz_trend)
  have n2: "\<not> is_nan (current_vol_of sample_env zigzag)"
    by (simp add: zz_vol)
  from detect_regime_total [of sample_env "[(''open'', [Fin 100])]" "[]"] a
  have r1: "detect_regime sample_env [(''open'', [Fin 100])] = ''UNKNOWN''"
    by blast
  from detect_regime_total [of sample_env "[(''close'', [])]" "[]"] b
  have r2: "detect_regime sample_env [(''close'', [])] = ''CHOP_LOW_VOL''"
    by blast
  from detect_regime_total [of sample_env "[(''close'', zigzag)]" zigzag] c n1 n2
  have "detect_regime sample_env [(''close'', zigzag)] =
      regime_label (fgt (current_trend_of sample_env zigzag) (Fin (1 / 10)))
                   (flt (current_vol_of sample_env zigzag) (Fin (20 / 100)))"
    by blast
  with zz_trend_small zz_vol_small
  have r3: "detect_regime sample_env [(''close'', zigzag)] = ''CHOP_LOW_VOL''"
    by (simp add: regime_label_def)
  from a b c n1 n2 r1 r2 r3 show ?thesis
    by blast
qed

section \<open>Repeated limit checks\<close>

lemma single_name_loop_untimed:
  "map without_timestamp alerts = map without_timestamp alerts' \<Longrightarrow>
   map without_timestamp (fst (single_name_loop env e d alerts t)) =
   map without_timestamp (fst (single_name_loop env (e\<lparr>risk_alerts := logged\<rparr>) d alerts' t'))"
proof (induction d arbitrary: alerts alerts' t t')
  case Nil
  then show ?case by simp
next
  case (Cons kv d)
  obtain symbol weight where kv: "kv = (symbol, weight)"
    by (cases kv)
  let ?lvl = "if fgt (fabs weight) (fmul (single_name (position_limits e)) (Fin (12 / 10)))
              then RED else ORANGE"
  let ?alert = "\<lambda>k. \<lparr> level = ?lvl,
                       message = ''Single name limit exceeded: '' @ symbol,
                       metric = ''single_name_concentration'',
                       current_value = fabs weight,
                       limit_value = single_name (position_limits e),
                       timestamp = now_at env k,
                       action_required = True \<rparr>"
  show ?case
  proof (cases "fgt (fabs weight) (single_name (position_limits e))")
    case True
    have "without_timestamp (?alert t) = without_timestamp (?alert t')"
      by (simp add: without_timestamp_def)
    then have "map without_timestamp (alerts @ [?alert t]) = map without_timestamp (alerts' @ [?alert t'])"
      using Cons.prems by simp
    from Cons.IH [OF this, of "Suc t" "Suc t'"] True show ?thesis
      by (simp add: kv Let_def)
  next
    case False
    from Cons.IH [OF Cons.prems, of t t'] False show ?thesis
      by (simp add: kv Let_def)
  qed
qed

lemma single_name_loop_same_clock:
  assumes "\<And>k. now_at env k = c"
  shows "fst (single_name_loop env e d alerts t) =
         fst (single_name_loop env (e\<lparr>risk_alerts := logged\<rparr>) d alerts t')"
proof (induction d arbitrary: alerts t t')
  case Nil
  then show ?case by simp
next
  case (Cons kv d)
  obtain symbol weight where kv: "kv = (symbol, weight)"
    by (cases kv)
  show ?case
  proof (cases "fgt (fabs weight) (single_name (position_limits e))")
    case True
    then show ?thesis
      using Cons.IH [of _ "Suc t" "Suc t'"]
      by (simp add: kv Let_def assms del: append.simps)
  next
    case False
    then show ?thesis
      using Cons.IH [of alerts t t'] by (simp add: kv Let_def)
  qed
qed

lemma fst_check_limits:
  "fst (check_limits env h e p t) =
     (let r1 = check_single_name_limits env h e p t;
          r2 = check_exposure_limits env h e p (snd r1);
          r3 = check_var_limits env e p (snd r2);
          r4 = check_correlation_limits env e p (snd r3)
      in fst r1 @ fst r2 @ fst r3 @ fst r4)"
  by (simp add: check_limits_def Let_def split: prod.splits)

lemma engine_after_check_limits:
  "fst (snd (check_limits env h e p t)) = e\<lparr>risk_alerts := risk_alerts e @ fst (check_limits env h e p t)\<rparr>"
  by (simp add: check_limits_def Let_def split: prod.splits)

lemma check_exposure_limits_untimed:
  "map without_timestamp (fst (check_exposure_limits env h e p t)) =
   map without_timestamp (fst (check_exposure_limits env h (e\<lparr>risk_alerts := logged\<rparr>) p t'))"
  by (simp add: check_exposure_limits_def Let_def without_timestamp_def)

lemma check_var_limits_untimed:
  "map without_timestamp (fst (check_var_limits env e p t)) =
   map without_timestamp (fst (check_var_limits env (e\<lparr>risk_alerts := logged\<rparr>) p t'))"
proof -
  have "calculate_var env (e\<lparr>risk_alerts := logged\<rparr>) p = calculate_var env e p"
    by (simp add: calculate_var_def Let_def)
  then show ?thesis
    by (cases "calculate_var env e p") (simp_all add: check_var_limits_def Let_def without_timestamp_def)
qed

lemma check_correlation_limits_untimed:
  "map without_timestamp (fst (check_correlation_limits env e p t)) =
   map without_timestamp (fst (check_correlation_limits env (e\<lparr>risk_alerts := logged\<rparr>) p t'))"
  by (simp add: check_correlation_limits_def Let_def without_timestamp_def)

lemma check_limits_untimed:
  "map without_timestamp (fst (check_limits env h e p t)) =
   map without_timestamp (fst (check_limits env h (e\<lparr>risk_alerts := logged\<rparr>) p t'))"
proof -
  have a: "map without_timestamp (fst (check_single_name_limits env h e p t)) =
        map without_timestamp (fst (check_single_name_limits env h (e\<lparr>risk_alerts := logged\<rparr>) p t'))"
    unfolding check_single_name_limits_def by (rule single_name_loop_untimed) simp
  show ?thesis
    unfolding fst_check_limits Let_def map_append
    by (intro arg_cong2 [where f = append] a check_exposure_limits_untimed
        check_var_limits_untimed check_correlation_limits_untimed)
qed

lemma check_limits_same_clock:
  assumes "\<And>k. now_at env k = c"
  shows "fst (check_limits env h e p t) = fst (check_limits env h (e\<lparr>risk_alerts := logged\<rparr>) p t')"
proof -
  have a: "fst (check_single_name_limits env h e p u) =
        fst (check_single_name_limits env h (e\<lparr>risk_alerts := logged\<rparr>) p u')" for u u'
    unfolding check_single_name_limits_def using assms by (rule single_name_loop_same_clock)
  have b: "fst (check_exposure_limits env h e p u) =
        fst (check_exposure_limits env h (e\<lparr>risk_alerts := logged\<rparr>) p u')" for u u'
    by (simp add: check_exposure_limits_def Let_def assms)
  have cv: "calculate_var env (e\<lparr>risk_alerts := logged\<rparr>) p = calculate_var env e p"
    by (simp add: calculate_var_def Let_def)
  have c: "fst (check_var_limits env e p u) =
        fst (check_var_limits env (e\<lparr>risk_alerts := logged\<rparr>) p u')" for u u'
    by (cases "calculate_var env e p") (simp_all add: check_var_limits_def Let_def assms cv)
  have d: "fst (check_correlation_limits env e p u) =
        fst (check_correlation_limits env (e\<lparr>risk_alerts := logged\<rparr>) p u')" for u u'
    by (simp add: check_correlation_limits_def Let_def assms)
  show ?thesis
    unfolding fst_check_limits Let_def
    by (intro arg_cong2 [where f = append] a b c d)
qed

text \<open>
  Claim C8 says that two calls in succession return lists equal in every field. Every
  alert carries the reading of the clock at its creation: with one position above the
  single-name limit, the first call returns an alert stamped 0 and the second call the
  same alert stamped 1.
\<close>

theorem check_limits_timestamp_counterexample:
  "fst (check_limits sample_env aapl_store default_engine (sample_portfolio (Fin 100) (Fin 0)) 0) \<noteq>
   fst (check_limits sample_env aapl_store
          (fst (snd (check_limits sample_env aapl_store default_engine (sample_portfolio (Fin 100) (Fin 0)) 0)))
          (sample_portfolio (Fin 100) (Fin 0))
          (snd (snd (check_limits sample_env aapl_store default_engine (sample_portfolio (Fin 100) (Fin 0)) 0))))"
  by code_simp

text \<open>
  Claim C8, amended. A second call of \<^verbatim>\<open>check_limits\<close> on the same portfolio, in the
  state the first call left (history, correlation matrix and configuration unchanged,
  the alert log longer), returns the same alerts in the same order, equal in level,
  message, metric, current value, limit value and \<^verbatim>\<open>action_required\<close>; the timestamps
  are those of the clock, and the lists are equal in every field when the clock gives
  the same reading throughout.
\<close>

theorem check_limits_repeatable:
  "map without_timestamp (fst (check_limits env h e p t)) =
   map without_timestamp
     (fst (check_limits env h (fst (snd (check_limits env h e p t))) p
             (snd (snd (check_limits env h e p t)))))
   \<and> ((\<forall>k. now_at env k = c) \<longrightarrow>
        fst (check_limits env h e p t) =
        fst (check_limits env h (fst (snd (check_limits env h e p t))) p
               (snd (snd (check_limits env h e p t)))))"
  unfolding engine_after_check_limits
  using check_limits_untimed check_limits_same_clock by blast

theorem check_limits_repeatable_witness:
  "(\<forall>k. now_at frozen_env k = 7)
   \<and> fst (check_limits frozen_env aapl_store default_engine (sample_portfolio (Fin 100) (Fin 0)) 0) =
       [\<lparr> level = RED, message = ''Single name limit exceeded: AAPL'',
          metric = ''single_name_concentration'', current_value = Fin (5 / 100),
          limit_value = Fin (3 / 100), timestamp = 7, action_required = True \<rparr>]
   \<and> fst (check_limits frozen_env aapl_store
          (fst (snd (check_limits frozen_env aapl_store default_engine (sample_portfolio (Fin 100) (Fin 0)) 0)))
          (sample_portfolio (Fin 100) (Fin 0))
          (snd (snd (check_limits frozen_env aapl_store default_engine (sample_portfolio (Fin 100) (Fin 0)) 0)))) =
       [\<lparr> level = RED, message = ''Single name limit exceeded: AAPL'',
          metric = ''single_name_concentration'', current_value = Fin (5 / 100),
          limit_value = Fin (3 / 100), timestamp = 7, action_required = True \<rparr>]"
proof -
  have k: "\<forall>k. now_at frozen_env k = 7"
    by (simp add: frozen_env_def)
  have first: "fst (check_limits frozen_env aapl_store default_engine (sample_portfolio (Fin 100) (Fin 0)) 0) =
       [\<lparr> level = RED, message = ''Single name limit exceeded: AAPL'',
          metric = ''single_name_concentration'', current_value = Fin (5 / 100),
          limit_value = Fin (3 / 100), timestamp = 7, action_required = True \<rparr>]"
    by code_simp
  from check_limits_repeatable [of frozen_env aapl_store default_engine
      "sample_portfolio (Fin 100) (Fin 0)" 0 7] k
  have "fst (check_limits frozen_env aapl_store default_engine (sample_portfolio (Fin 100) (Fin 0)) 0) =
     fst (check_limits frozen_env aapl_store
          (fst (snd (check_limits frozen_env aapl_store default_engine (sample_portfolio (Fin 100) (Fin 0)) 0)))
          (sample_portfolio (Fin 100) (Fin 0))
          (snd (snd (check_limits frozen_env aapl_store default_engine (sample_portfolio (Fin 100) (Fin 0)) 0))))"
    by blast
  with k first show ?thesis
    by simp
qed

section \<open>The 30-day drawdown is the minimum over the window\<close>

lemma length_expanding_max_from: "length (expanding_max_from m xs) = length xs"
  by (induction xs arbitrary: m) (simp_all add: Let_def)

lemma expanding_max_from_nth:
  "i < length xs \<Longrightarrow>
   expanding_max_from (Fin m) (map Fin xs) ! i = Fin (Max (insert m (set (take (Suc i) xs))))"
proof (induction xs arbitrary: m i)
  case Nil
  then show ?case by simp
next
  case (Cons x xs)
  show ?case
  proof (cases i)
    case 0
    have "expanding_max_from (Fin m) (map Fin (x # xs)) ! 0 = Fin (max m x)"
      by (simp add: Let_def max_def)
    moreover have "Max (insert m (set (take (Suc 0) (x # xs)))) = max m x"
      by simp
    ultimately show ?thesis
      by (simp only: 0)
  next
    case (Suc j)
    with Cons.prems have j: "j < length xs"
      by simp
    have "expanding_max_from (Fin m) (map Fin (x # xs)) ! Suc j =
          expanding_max_from (Fin (max m x)) (map Fin xs) ! j"
      by (simp add: Let_def max_def)
    also have "\<dots> = Fin (Max (insert (max m x) (set (take (Suc j) xs))))"
      by (rule Cons.IH [OF j])
    also have "\<dots> = Fin (Max (insert m (set (take (Suc (Suc j)) (x # xs)))))"
      by (cases "take (Suc j) xs = []") (simp_all add: max.assoc)
    finally show ?thesis
      by (simp only: Suc)
  qed
qed

lemma expanding_max_nth:
  assumes "i < length xs"
  shows "expanding_max (map Fin xs) ! i = Fin (running_max_spec xs i)"
proof (cases xs)
  case Nil
  with assms show ?thesis by simp
next
  case (Cons x ys)
  have e: "expanding_max (Fin x # map Fin ys) = Fin x # expanding_max_from (Fin x) (map Fin ys)"
    by (simp add: expanding_max_def inf_to_nan_def Let_def comp_def)
  show ?thesis
  proof (cases i)
    case 0
    then show ?thesis
      by (simp add: Cons e running_max_spec_def)
  next
    case (Suc j)
    with assms Cons have "j < length ys"
      by simp
    from expanding_max_from_nth [OF this, of x] show ?thesis
      by (simp add: Cons e Suc running_max_spec_def)
  qed
qed

lemma length_expanding_max: "length (expanding_max xs) = length xs"
  by (simp add: expanding_max_def length_expanding_max_from)

lemma running_max_spec_ge:
  "i < length xs \<Longrightarrow> xs ! i \<le> running_max_spec xs i"
  unfolding running_max_spec_def
  by (rule Max_ge) (auto simp: in_set_conv_nth intro!: exI [of _ i])

lemma series_min_fold:
  "foldl (\<lambda>a b. if fle b a then b else a) (Fin y) (map Fin ys) = Fin (Min (insert y (set ys)))"
proof (induction ys arbitrary: y)
  case Nil
  then show ?case by simp
next
  case (Cons z zs)
  have "foldl (\<lambda>a b. if fle b a then b else a) (Fin y) (map Fin (z # zs)) =
        foldl (\<lambda>a b. if fle b a then b else a) (Fin (min y z)) (map Fin zs)"
    by (auto simp: min_def)
  also have "\<dots> = Fin (Min (insert (min y z) (set zs)))"
    by (rule Cons)
  also have "\<dots> = Fin (Min (insert y (set (z # zs))))"
    by (cases "zs = []") (simp_all add: min.assoc)
  finally show ?case .
qed

lemma series_min_Fin:
  "ds \<noteq> [] \<Longrightarrow> series_min (map Fin ds) = Fin (Min (set ds))"
  by (cases ds) (simp_all add: series_min_def dropna_def series_min_fold comp_def)

lemma drawdown_series:
  assumes pos: "\<forall>x\<in>set xs. 0 < x"
  shows "map2 (\<lambda>n m. fdiv (fsub n m) m) (map Fin xs) (expanding_max (map Fin xs)) =
         map Fin (map (\<lambda>i. (xs ! i - running_max_spec xs i) / running_max_spec xs i) [0..<length xs])"
proof (rule nth_equalityI)
  show "length (map2 (\<lambda>n m. fdiv (fsub n m) m) (map Fin xs) (expanding_max (map Fin xs))) =
        length (map Fin (map (\<lambda>i. (xs ! i - running_max_spec xs i) / running_max_spec xs i) [0..<length xs]))"
    by (simp add: length_expanding_max)
next
  fix i
  assume "i < length (map2 (\<lambda>n m. fdiv (fsub n m) m) (map Fin xs) (expanding_max (map Fin xs)))"
  then have i: "i < length xs"
    by (simp add: length_expanding_max)
  with pos have "0 < xs ! i"
    by simp
  with running_max_spec_ge [OF i] have nz: "running_max_spec xs i \<noteq> 0"
    by linarith
  from i nz show "map2 (\<lambda>n m. fdiv (fsub n m) m) (map Fin xs) (expanding_max (map Fin xs)) ! i =
        map Fin (map (\<lambda>i. (xs ! i - running_max_spec xs i) / running_max_spec xs i) [0..<length xs]) ! i"
    by (simp add: length_expanding_max expanding_max_nth fsub_def)
qed

lemma drawdown_spec_nonpos:
  assumes "xs \<noteq> []" and "\<forall>x\<in>set xs. 0 < x"
  shows "drawdown_spec xs \<le> 0"
proof -
  have "running_max_spec xs 0 = xs ! 0"
    using assms(1) by (cases xs) (simp_all add: running_max_spec_def)
  then have "(xs ! 0 - running_max_spec xs 0) / running_max_spec xs 0 = 0"
    by simp
  moreover have "0 \<in> {..<length xs}"
    using assms(1) by simp
  ultimately have "0 \<in> (\<lambda>i. (xs ! i - running_max_spec xs i) / running_max_spec xs i) ` {..<length xs}"
    by (metis (mono_tags, lifting) image_eqI)
  then show ?thesis
    unfolding drawdown_spec_def by (intro Min_le) simp_all
qed

text \<open>
  Claim C7. With fewer than 30 snapshots the drawdown is exactly 0. With at least 30,
  when the 30 most recent NAV values are positive numbers, the result of the pandas
  computation is the drawdown of the specification on these values (the minimum of
  \<open>(nav - running_max) / running_max\<close> over the window), and it is at most 0.
\<close>

theorem drawdown_30day_correct:
  "(length (portfolio_history e) < 30 \<longrightarrow> calculate_30day_drawdown e p = Fin 0)
   \<and> (30 \<le> length (portfolio_history e)
        \<and> map nav (py_last 30 (portfolio_history e)) = map Fin xs
        \<and> list_all (\<lambda>x. 0 < x) xs \<longrightarrow>
      length xs = 30
      \<and> calculate_30day_drawdown e p = Fin (drawdown_spec xs)
      \<and> drawdown_spec xs \<le> 0)"
proof -
  have a: "length (portfolio_history e) < 30 \<Longrightarrow> calculate_30day_drawdown e p = Fin 0"
    by (simp add: calculate_30day_drawdown_def)
  have b: "length xs = 30 \<and> calculate_30day_drawdown e p = Fin (drawdown_spec xs) \<and> drawdown_spec xs \<le> 0"
    if len: "30 \<le> length (portfolio_history e)"
      and navs: "map nav (py_last 30 (portfolio_history e)) = map Fin xs"
      and pos_all: "list_all (\<lambda>x. 0 < x) xs"
  proof -
    from pos_all have pos: "\<forall>x\<in>set xs. 0 < x"
      by (simp add: list_all_iff)
    have "length (map nav (py_last 30 (portfolio_history e))) = 30"
      using len by (simp add: py_last_def)
    with navs have l: "length xs = 30"
      by (metis length_map)
    then have ne: "xs \<noteq> []"
      by auto
    have s: "set [0..<length xs] = {..<length xs}"
      by auto
    have "calculate_30day_drawdown e p =
        series_min (map2 (\<lambda>n m. fdiv (fsub n m) m) (map Fin xs) (expanding_max (map Fin xs)))"
      using len by (simp add: calculate_30day_drawdown_def Let_def navs)
    also have "\<dots> = Fin (Min (set (map (\<lambda>i. (xs ! i - running_max_spec xs i) / running_max_spec xs i)
                                       [0..<length xs])))"
      unfolding drawdown_series [OF pos] using ne by (intro series_min_Fin) simp
    also have "\<dots> = Fin (drawdown_spec xs)"
      unfolding drawdown_spec_def set_map s ..
    finally show ?thesis
      using l drawdown_spec_nonpos [OF ne pos] by simp
  qed
  from a b show ?thesis by blast
qed

theorem drawdown_30day_correct_witness:
  "length (portfolio_history default_engine) < 30
   \<and> calculate_30day_drawdown default_engine (day 0) = Fin 0
   \<and> 30 \<le> length (portfolio_history (default_engine\<lparr>portfolio_history := crash_history\<rparr>))
   \<and> map nav (py_last 30 (portfolio_history (default_engine\<lparr>portfolio_history := crash_history\<rparr>)))
       = map Fin (100 # replicate 29 50)
   \<and> list_all (\<lambda>x. 0 < x) (100 # replicate 29 (50 :: real))
   \<and> calculate_30day_drawdown (default_engine\<lparr>portfolio_history := crash_history\<rparr>) (day 0)
       = Fin (drawdown_spec (100 # replicate 29 50))
   \<and> drawdown_spec (100 # replicate 29 50) \<le> 0
   \<and> calculate_30day_drawdown (default_engine\<lparr>portfolio_history := crash_history\<rparr>) (day 0)
       = Fin (- (1 / 2))"
proof -
  let ?e = "default_engine\<lparr>portfolio_history := crash_history\<rparr>"
  have h0: "length (portfolio_history default_engine) < 30"
    by (simp add: default_engine_def RiskEngine_init_def)
  have h1: "30 \<le> length (portfolio_history ?e)"
    by (simp add: crash_history_def)
  have h2: "map nav (py_last 30 (portfolio_history ?e)) = map Fin (100 # replicate 29 50)"
    by (simp add: crash_history_def py_last_def sample_portfolio_def)
  have h3: "list_all (\<lambda>x. 0 < x) (100 # replicate 29 (50 :: real))"
    by (simp add: list_all_iff)
  have v: "calculate_30day_drawdown ?e (day 0) = Fin (- (1 / 2))"
    by code_simp
  from drawdown_30day_correct [of default_engine "day 0" "[]"] h0
  have r0: "calculate_30day_drawdown default_engine (day 0) = Fin 0"
    by blast
  from drawdown_30day_correct [of ?e "day 0" "100 # replicate 29 50"] h1 h2 h3
  have r1: "calculate_30day_drawdown ?e (day 0) = Fin (drawdown_spec (100 # replicate 29 50))
      \<and> drawdown_spec (100 # replicate 29 50) \<le> 0"
    by blast
  from h0 h1 h2 h3 v r0 r1 show ?thesis
    by blast
qed

section \<open>The response copies and scales\<close>

lemma dict_getitem_unprocessed:
  "k \<notin> set (map fst pre) \<Longrightarrow> dict_getitem (scaled c pre @ (k, w) # rest) k = Inr w"
proof -
  assume "k \<notin> set (map fst pre)"
  then have "map_of (scaled c pre) k = None"
    by (induction pre) (auto simp: scaled_def)
  then show ?thesis
    by (simp add: dict_getitem_def map_add_def)
qed

lemma dict_setitem_unprocessed:
  assumes "k \<notin> set (map fst pre)" and "k \<notin> set (map fst rest)"
  shows "dict_setitem (scaled c pre @ (k, w) # rest) k v = scaled c pre @ (k, v) # rest"
proof -
  have a: "map (\<lambda>(k', v'). if k' = k then (k', v) else (k', v')) (scaled c pre) = scaled c pre"
    using assms(1) by (induction pre) (auto simp: scaled_def)
  have b: "map (\<lambda>(k', v'). if k' = k then (k', v) else (k', v')) rest = rest"
    using assms(2) by (induction rest) auto
  show ?thesis
    by (simp add: dict_setitem_def a b)
qed

lemma scale_loop_scaled:
  assumes "a < length h"
  shows "distinct (map fst (pre @ post)) \<Longrightarrow>
         scale_loop c a (map fst post) (h[a := scaled c pre @ post]) = Inr (h[a := scaled c (pre @ post)])"
proof (induction post arbitrary: pre)
  case Nil
  then show ?case by simp
next
  case (Cons kv post)
  obtain k w where kv: "kv = (k, w)"
    by (cases kv)
  from Cons.prems have k1: "k \<notin> set (map fst pre)" and k2: "k \<notin> set (map fst post)"
    by (auto simp: kv)
  from Cons.prems have d: "distinct (map fst ((pre @ [(k, w)]) @ post))"
    by (simp add: kv)
  have s: "scaled c pre @ (k, fmul w c) # post = scaled c (pre @ [(k, w)]) @ post"
    by (simp add: scaled_def)
  have "scale_loop c a (map fst (kv # post)) (h[a := scaled c pre @ kv # post]) =
        scale_loop c a (map fst post) (h[a := scaled c (pre @ [(k, w)]) @ post])"
    using assms
    by (simp add: kv dict_getitem_unprocessed [OF k1] dict_setitem_unprocessed [OF k1 k2] s
        del: append.simps)
  also have "\<dots> = Inr (h[a := scaled c ((pre @ [(k, w)]) @ post)])"
    by (rule Cons.IH [OF d])
  finally show ?case
    by (simp add: kv)
qed

lemma scale_in_place_scaled:
  assumes "a < length h" and "distinct (map fst (h ! a))"
  shows "scale_in_place c a h = Inr (h[a := scaled c (h ! a)])"
  using scale_loop_scaled [OF assms(1), of "[]" "h ! a" c] assms(2)
  by (simp add: scale_in_place_def scaled_def)

lemma fgt_zero_nonzero: "fgt g (Fin 0) \<Longrightarrow> g \<noteq> Fin 0"
  by (auto simp: fgt_def flt_def)

lemma apply_circuit_breaker_result:
  assumes "positions p < length h" and "distinct (map fst (h ! positions p))"
  shows "apply_circuit_breaker (e, h) p lvl = Inr (length h, e, h @ [response_spec (h ! positions p) lvl])"
proof -
  let ?d = "h ! positions p"
  have n: "(h @ [?d]) ! length h = ?d"
    by simp
  have sc: "scale_in_place c (length h) (h @ [?d]) = Inr (h @ [scaled c ?d])" for c
    using scale_in_place_scaled [of "length h" "h @ [?d]" c] assms(2)
    by simp
  show ?thesis
  proof (cases lvl)
    case NONE
    then show ?thesis
      by (simp add: apply_circuit_breaker_def dict_copy_def response_spec_def)
  next
    case LEVEL_1
    then show ?thesis
      by (simp add: apply_circuit_breaker_def dict_copy_def response_spec_def sc del: nth_append_length)
  next
    case LEVEL_2
    then show ?thesis
      using fgt_zero_nonzero [of "gross_exposure_of ?d"]
      by (simp add: apply_circuit_breaker_def dict_copy_def response_spec_def sc py_truediv_def
          gross_exposure_of_def [symmetric] Let_def)
  next
    case LEVEL_3
    then show ?thesis
      by (simp add: apply_circuit_breaker_def dict_copy_def response_spec_def sc del: nth_append_length)
  qed
qed









lemma keys_scaled: "map fst (scaled c d) = map fst d"
  by (induction d) (auto simp: scaled_def)

lemma keys_response_spec: "map fst (response_spec d lvl) = map fst d"
  by (cases lvl) (simp_all add: response_spec_def keys_scaled)

text \<open>
  Claim C9. \<^verbatim>\<open>apply_circuit_breaker\<close> changes neither the engine nor any dict that
  existed before the call, the positions of the input portfolio among them: the engine
  it leaves is the engine it got, the store of dicts is the old store with one new dict
  at a fresh address, and that new dict is what it returns. With level NONE the new
  dict has the entries of the input positions.
\<close>

theorem apply_circuit_breaker_pure:
  "positions p < length h \<and> distinct (map fst (h ! positions p)) \<longrightarrow>
     (\<exists>a h'. apply_circuit_breaker (e, h) p lvl = Inr (a, e, h')
        \<and> a = length h \<and> a \<noteq> positions p
        \<and> length h' = Suc (length h)
        \<and> take (length h) h' = h
        \<and> h' ! positions p = h ! positions p
        \<and> (lvl = NONE \<longrightarrow> h' ! a = h ! positions p))"
proof (intro impI, elim conjE)
  assume v: "positions p < length h" and dk: "distinct (map fst (h ! positions p))"
  let ?h' = "h @ [response_spec (h ! positions p) lvl]"
  have r: "apply_circuit_breaker (e, h) p lvl = Inr (length h, e, ?h')"
    by (rule apply_circuit_breaker_result [OF v dk])
  moreover have "length h \<noteq> positions p"
    using v by simp
  moreover have "?h' ! positions p = h ! positions p"
    using v by (simp add: nth_append)
  moreover have "lvl = NONE \<longrightarrow> ?h' ! length h = h ! positions p"
    by (simp add: response_spec_def)
  ultimately show "\<exists>a h'. apply_circuit_breaker (e, h) p lvl = Inr (a, e, h')
        \<and> a = length h \<and> a \<noteq> positions p
        \<and> length h' = Suc (length h)
        \<and> take (length h) h' = h
        \<and> h' ! positions p = h ! positions p
        \<and> (lvl = NONE \<longrightarrow> h' ! a = h ! positions p)"
    by simp
qed

theorem apply_circuit_breaker_pure_witness:
  "positions (sample_portfolio (Fin 100) (Fin 0)) < length pair_store
   \<and> distinct (map fst (pair_store ! positions (sample_portfolio (Fin 100) (Fin 0))))
   \<and> apply_circuit_breaker (default_engine, pair_store) (sample_portfolio (Fin 100) (Fin 0)) NONE
       = Inr (2, default_engine, pair_store @ [pair_store ! 0])
   \<and> apply_circuit_breaker (default_engine, pair_store) (sample_portfolio (Fin 100) (Fin 0)) LEVEL_1
       = Inr (2, default_engine,
              pair_store @ [weights_dict [(''AAPL'', 15 / 100), (''MSFT'', - (10 / 100))]])"
proof -
  let ?p = "sample_portfolio (Fin 100) (Fin 0)"
  have p0: "positions ?p = 0"
    by (simp add: sample_portfolio_def)
  have a1: "positions ?p < length pair_store"
    by (simp add: p0 pair_store_def)
  have a2: "distinct (map fst (pair_store ! positions ?p))"
    by (simp add: p0 pair_store_def weights_dict_def)
  have l: "length pair_store = 2"
    by (simp add: pair_store_def)
  from apply_circuit_breaker_pure [of ?p pair_store default_engine NONE] a1 a2
  obtain a h' where n: "apply_circuit_breaker (default_engine, pair_store) ?p NONE = Inr (a, default_engine, h')"
    and na: "a = length pair_store" and nl: "length h' = Suc (length pair_store)"
    and nt: "take (length pair_store) h' = pair_store" and nn: "h' ! a = pair_store ! positions ?p"
    by blast
  have "h' = take (length pair_store) h' @ [h' ! length pair_store]"
    using nl by (metis lessI take_Suc_conv_app_nth take_all order_refl)
  with nt nn na p0 have "h' = pair_store @ [pair_store ! 0]"
    by simp
  with n na l have r0: "apply_circuit_breaker (default_engine, pair_store) ?p NONE
       = Inr (2, default_engine, pair_store @ [pair_store ! 0])"
    by simp
  have "apply_circuit_breaker (default_engine, pair_store) ?p LEVEL_1
       = Inr (2, default_engine,
              pair_store @ [weights_dict [(''AAPL'', 15 / 100), (''MSFT'', - (10 / 100))]])"
    by (simp add: apply_circuit_breaker_def dict_copy_def scale_in_place_def pair_store_def
        weights_dict_def sample_portfolio_def dict_getitem_def dict_setitem_def)
  with a1 a2 r0 show ?thesis
    by blast
qed

text \<open>
  Claim C10. \<^verbatim>\<open>calculate_var\<close> does not depend on its portfolio argument: for one
  engine, any two portfolios give the same result. The dict returned by
  \<^verbatim>\<open>apply_circuit_breaker\<close> depends only on the level and on the entries of the
  positions passed (not on the engine, the other fields of the portfolio or the other
  dicts), and it has the keys of the input positions, in their order.
\<close>

theorem var_and_response_inputs:
  "calculate_var env e p1 = calculate_var env e p2
   \<and> (positions p1 < length h1 \<and> positions p2 < length h2
        \<and> h1 ! positions p1 = h2 ! positions p2
        \<and> distinct (map fst (h1 ! positions p1)) \<longrightarrow>
      (\<exists>a1 k1 a2 k2.
          apply_circuit_breaker (e1, h1) p1 lvl = Inr (a1, e1, k1)
        \<and> apply_circuit_breaker (e2, h2) p2 lvl = Inr (a2, e2, k2)
        \<and> k1 ! a1 = k2 ! a2
        \<and> map fst (k1 ! a1) = map fst (h1 ! positions p1)))"
proof -
  have a: "calculate_var env e p1 = calculate_var env e p2"
    by (simp add: calculate_var_def)
  have b: "\<exists>a1 k1 a2 k2.
          apply_circuit_breaker (e1, h1) p1 lvl = Inr (a1, e1, k1)
        \<and> apply_circuit_breaker (e2, h2) p2 lvl = Inr (a2, e2, k2)
        \<and> k1 ! a1 = k2 ! a2
        \<and> map fst (k1 ! a1) = map fst (h1 ! positions p1)"
    if v1: "positions p1 < length h1" and v2: "positions p2 < length h2"
      and same: "h1 ! positions p1 = h2 ! positions p2"
      and dk: "distinct (map fst (h1 ! positions p1))"
  proof -
    from dk same have dk2: "distinct (map fst (h2 ! positions p2))"
      by simp
    have "apply_circuit_breaker (e1, h1) p1 lvl =
        Inr (length h1, e1, h1 @ [response_spec (h1 ! positions p1) lvl])"
      by (rule apply_circuit_breaker_result [OF v1 dk])
    moreover have "apply_circuit_breaker (e2, h2) p2 lvl =
        Inr (length h2, e2, h2 @ [response_spec (h1 ! positions p1) lvl])"
      using apply_circuit_breaker_result [OF v2 dk2, of e2 lvl] by (simp add: same)
    ultimately show ?thesis
      by (simp add: keys_response_spec)
  qed
  from a b show ?thesis
    by blast
qed

theorem var_and_response_inputs_witness:
  "positions (sample_portfolio (Fin 100) (Fin 0)) < length pair_store
   \<and> positions ((sample_portfolio (Fin 7) (Fin (- 1)))\<lparr>positions := 1\<rparr>) < length (aapl_store @ pair_store)
   \<and> pair_store ! positions (sample_portfolio (Fin 100) (Fin 0)) =
       (aapl_store @ pair_store) ! positions ((sample_portfolio (Fin 7) (Fin (- 1)))\<lparr>positions := 1\<rparr>)
   \<and> distinct (map fst (pair_store ! positions (sample_portfolio (Fin 100) (Fin 0))))
   \<and> calculate_var sample_env (default_engine\<lparr>portfolio_history := crash_history\<rparr>)
        (sample_portfolio (Fin 100) (Fin 0))
       = calculate_var sample_env (default_engine\<lparr>portfolio_history := crash_history\<rparr>)
           ((sample_portfolio (Fin 7) (Fin (- 1)))\<lparr>positions := 1\<rparr>)
   \<and> map fst (snd (snd (projr (apply_circuit_breaker (default_engine, pair_store)
                                  (sample_portfolio (Fin 100) (Fin 0)) LEVEL_3)))
               ! fst (projr (apply_circuit_breaker (default_engine, pair_store)
                                  (sample_portfolio (Fin 100) (Fin 0)) LEVEL_3)))
       = [''AAPL'', ''MSFT'']
   \<and> snd (snd (projr (apply_circuit_breaker (default_engine, pair_store)
                                  (sample_portfolio (Fin 100) (Fin 0)) LEVEL_3)))
         ! fst (projr (apply_circuit_breaker (default_engine, pair_store)
                                  (sample_portfolio (Fin 100) (Fin 0)) LEVEL_3))
       = snd (snd (projr (apply_circuit_breaker
                            (default_engine\<lparr>portfolio_history := crash_history\<rparr>, aapl_store @ pair_store)
                            ((sample_portfolio (Fin 7) (Fin (- 1)))\<lparr>positions := 1\<rparr>) LEVEL_3)))
         ! fst (projr (apply_circuit_breaker
                            (default_engine\<lparr>portfolio_history := crash_history\<rparr>, aapl_store @ pair_store)
                            ((sample_portfolio (Fin 7) (Fin (- 1)))\<lparr>positions := 1\<rparr>) LEVEL_3))"
proof -
  let ?p = "sample_portfolio (Fin 100) (Fin 0)"
  let ?q = "(sample_portfolio (Fin 7) (Fin (- 1)))\<lparr>positions := 1\<rparr>"
  let ?e2 = "default_engine\<lparr>portfolio_history := crash_history\<rparr>"
  let ?h2 = "aapl_store @ pair_store"
  have p0: "positions ?p = 0" and q1: "positions ?q = 1"
    by (simp_all add: sample_portfolio_def)
  have a1: "positions ?p < length pair_store"
    by (simp add: p0 pair_store_def)
  have a2: "positions ?q < length ?h2"
    by (simp add: q1 pair_store_def)
  have a3: "pair_store ! positions ?p = ?h2 ! positions ?q"
    by (simp add: p0 q1 pair_store_def aapl_store_def)
  have a4: "distinct (map fst (pair_store ! positions ?p))"
    by (simp add: p0 pair_store_def weights_dict_def)
  have k: "map fst (pair_store ! positions ?p) = [''AAPL'', ''MSFT'']"
    by (simp add: p0 pair_store_def weights_dict_def)
  from var_and_response_inputs [of sample_env ?e2 ?p ?q pair_store ?h2 default_engine LEVEL_3 ?e2]
    a1 a2 a3 a4
  obtain a1' k1 a2' k2 where
    v: "calculate_var sample_env ?e2 ?p = calculate_var sample_env ?e2 ?q"
    and r1: "apply_circuit_breaker (default_engine, pair_store) ?p LEVEL_3 = Inr (a1', default_engine, k1)"
    and r2: "apply_circuit_breaker (?e2, ?h2) ?q LEVEL_3 = Inr (a2', ?e2, k2)"
    and eq: "k1 ! a1' = k2 ! a2'"
    and keys: "map fst (k1 ! a1') = map fst (pair_store ! positions ?p)"
    by blast
  from a1 a2 a3 a4 v r1 r2 eq keys k show ?thesis
    by simp
qed

section \<open>Value at risk is a percentile of the returns\<close>

lemma ffill_from_Fin: "ffill_from l (map Fin xs) = map Fin xs"
  by (induction xs arbitrary: l) (simp_all add: Let_def)

lemma map2_pct_Fin:
  "\<forall>p\<in>set ys. p \<noteq> 0 \<Longrightarrow>
   map2 (\<lambda>cur prev. fsub (fdiv cur prev) (Fin 1)) (map Fin xs) (map Fin ys) =
   map Fin (map2 (\<lambda>cur prev. (cur - prev) / prev) xs ys)"
proof (induction xs arbitrary: ys)
  case Nil
  then show ?case by simp
next
  case (Cons x xs)
  show ?case
  proof (cases ys)
    case Nil
    then show ?thesis by simp
  next
    case (Cons y zs)
    with Cons.prems have y: "y \<noteq> 0" and zs: "\<forall>p\<in>set zs. p \<noteq> 0"
      by simp_all
    from y have "x / y - 1 = (x - y) / y"
      by (simp add: diff_divide_distrib)
    with y Cons.IH [OF zs] show ?thesis
      by (simp add: Cons fsub_def)
  qed
qed

lemma pct_change_Fin:
  assumes "xs \<noteq> []" and "\<forall>p\<in>set xs. p \<noteq> 0"
  shows "pct_change pad (map Fin xs) = NaN # map Fin (returns_spec xs)"
proof -
  obtain x ys where xs: "xs = x # ys"
    using assms(1) by (cases xs) auto
  have "map2 (\<lambda>cur prev. fsub (fdiv cur prev) (Fin 1)) (map Fin ys) (map Fin (x # ys)) =
        map Fin (map2 (\<lambda>cur prev. (cur - prev) / prev) ys (x # ys))"
    using assms(2) unfolding xs by (rule map2_pct_Fin)
  then show ?thesis
    by (simp add: pct_change_def ffill_from_Fin xs returns_spec_def Let_def)
qed

lemma dropna_Fin: "dropna (map Fin rs) = map Fin rs"
  by (induction rs) (simp_all add: dropna_def)

lemma insort_f_Fin: "insort_f (Fin x) (map Fin ys) = map Fin (insort x ys)"
  by (induction ys) simp_all

lemma sort_f_Fin: "sort_f (map Fin xs) = map Fin (sort xs)"
  by (induction xs) (simp_all add: sort_f_def sort_key_def insort_f_Fin)

lemma lerp_Fin: "lerp (Fin a) (Fin b) t = Fin (a + t * (b - a))"
  by (simp add: lerp_def fsub_def Let_def algebra_simps)

lemma floor_index_bound:
  assumes "0 \<le> q" and "q \<le> 1" and "0 < n"
  shows "nat \<lfloor>real (n - 1) * q\<rfloor> < n"
proof -
  have "real (n - 1) * q \<le> real (n - 1) * 1"
    using assms(2) by (intro mult_left_mono) simp_all
  then have "\<lfloor>real (n - 1) * q\<rfloor> \<le> int (n - 1)"
    by (simp add: floor_le_iff)
  with assms(3) show ?thesis
    by linarith
qed

lemma np_percentile_Fin:
  assumes "rs \<noteq> []" and "0 \<le> q" and "q \<le> 100"
  shows "np_percentile (map Fin rs) (Fin q) = Inr (Fin (percentile_spec rs q))"
proof -
  let ?n = "length rs"
  let ?lo = "nat \<lfloor>real (?n - 1) * (q / 100)\<rfloor>"
  let ?hi = "min (?lo + 1) (?n - 1)"
  have n: "0 < ?n"
    using assms(1) by simp
  have lo: "?lo < length (sort rs)"
    using floor_index_bound [of "q / 100" ?n] assms(2,3) n by simp
  have hi: "?hi < length (sort rs)"
    using n by (simp add: min_less_iff_disj)
  have "np_percentile (map Fin rs) (Fin q) =
        Inr (lerp (map Fin (sort rs) ! ?lo) (map Fin (sort rs) ! ?hi)
               (real (?n - 1) * (q / 100) - real ?lo))"
    using assms by (simp add: np_percentile_def sort_f_Fin Let_def)
  also have "\<dots> = Inr (Fin (percentile_spec rs q))"
    unfolding nth_map [OF lo] nth_map [OF hi] lerp_Fin percentile_spec_def Let_def ..
  finally show ?thesis .
qed

lemma returns_spec_gt:
  assumes "\<forall>x\<in>set xs. 0 < x"
  shows "\<forall>r\<in>set (returns_spec xs). - 1 < r"
proof
  fix r
  assume "r \<in> set (returns_spec xs)"
  then obtain cur prev where r: "r = (cur - prev) / prev" and m: "(cur, prev) \<in> set (zip (tl xs) xs)"
    by (auto simp: returns_spec_def)
  from m have "cur \<in> set (tl xs)" and "prev \<in> set xs"
    by (auto dest: set_zip_leftD set_zip_rightD)
  with assms have c: "0 < cur" and p: "0 < prev"
    by (auto dest: list.set_sel(2) [rotated])
  from p have "(cur - prev) / prev = cur / prev - 1"
    by (simp add: diff_divide_distrib)
  moreover from c p have "0 < cur / prev"
    by simp
  ultimately show "- 1 < r"
    by (simp add: r)
qed

lemma frac_bounds:
  fixes v :: real
  assumes "0 \<le> v"
  shows "0 \<le> v - real (nat \<lfloor>v\<rfloor>) \<and> v - real (nat \<lfloor>v\<rfloor>) \<le> 1"
proof -
  from assms have "0 \<le> \<lfloor>v\<rfloor>"
    by simp
  then have fl: "real (nat \<lfloor>v\<rfloor>) = of_int \<lfloor>v\<rfloor>"
    by simp
  have "of_int \<lfloor>v\<rfloor> \<le> v" and "v \<le> of_int \<lfloor>v\<rfloor> + 1"
    by linarith+
  then show ?thesis
    unfolding fl by linarith
qed

lemma lerp_bounds:
  fixes a b t l u :: real
  assumes "0 \<le> t" and "t \<le> 1" and "l \<le> a" and "l \<le> b" and "a \<le> u" and "b \<le> u"
  shows "l \<le> a + t * (b - a) \<and> a + t * (b - a) \<le> u"
proof -
  have eq: "a + t * (b - a) = (1 - t) * a + t * b"
    by (simp add: algebra_simps)
  have up: "(1 - t) * a + t * b \<le> u"
    using assms by (intro convex_bound_le) simp_all
  have "(1 - t) * (- a) + t * (- b) \<le> - l"
    using assms by (intro convex_bound_le) simp_all
  then have "l \<le> (1 - t) * a + t * b"
    by simp
  with up show ?thesis
    unfolding eq by simp
qed

lemma percentile_spec_bounds:
  assumes ne: "rs \<noteq> []" and q0: "0 \<le> q" and q1: "q \<le> 100"
    and lb: "\<forall>r\<in>set rs. l \<le> r" and ub: "\<forall>r\<in>set rs. r \<le> u"
  shows "l \<le> percentile_spec rs q \<and> percentile_spec rs q \<le> u"
proof -
  let ?n = "length rs"
  let ?vi = "real (?n - 1) * (q / 100)"
  let ?lo = "nat \<lfloor>?vi\<rfloor>"
  let ?hi = "min (?lo + 1) (?n - 1)"
  have n: "0 < ?n"
    using ne by simp
  have lo: "?lo < length (sort rs)"
    using floor_index_bound [of "q / 100" ?n] q0 q1 n by simp
  have hi: "?hi < length (sort rs)"
    using n by (simp add: min_less_iff_disj)
  have vi0: "0 \<le> ?vi"
    using q0 by simp
  have t0: "0 \<le> ?vi - real ?lo" and t1: "?vi - real ?lo \<le> 1"
    using frac_bounds [OF vi0] by blast+
  have a: "sort rs ! ?lo \<in> set rs" and b: "sort rs ! ?hi \<in> set rs"
    using nth_mem [OF lo] nth_mem [OF hi] by (simp_all only: set_sort)
  from a b lb ub have ab: "l \<le> sort rs ! ?lo" "l \<le> sort rs ! ?hi" "sort rs ! ?lo \<le> u" "sort rs ! ?hi \<le> u"
    by blast+
  show ?thesis
    unfolding percentile_spec_def Let_def
    by (rule lerp_bounds [OF t0 t1 ab])
qed

text \<open>
  Claim C4 says that the result always lies in \<open>[0, 1]\<close>. On thirty snapshots whose
  NAV triples every day, every return is 2, and so are their percentile and the value
  at risk.
\<close>

theorem var_above_one_counterexample:
  "calculate_var sample_env (default_engine\<lparr>portfolio_history := boom_history\<rparr>) (day 0) = Inr (Fin 2)
   \<and> \<not> fle (Fin 2) (Fin 1)"
  by code_simp

text \<open>
  Claim C4, amended. \<^verbatim>\<open>calculate_var\<close> returns exactly 0.0, and no error, when the
  history holds fewer than 30 snapshots and when fewer than 10 returns are left after
  the undefined ones are dropped. Otherwise, for positive NAV values and a confidence
  in \<open>[0, 1]\<close>, it returns the absolute value of the \<open>(1 - confidence) * 100\<close>-th
  percentile, by linear interpolation, of the returns of the most recent 252 NAV values.
  This value is not negative; it is at most 1 when no return of the window exceeds 1,
  that is when no NAV is more than twice its predecessor.
\<close>

theorem var_historical:
  "(length (portfolio_history e) < 30 \<longrightarrow> calculate_var env e p = Inr (Fin 0))
   \<and> (length (dropna (pct_change (pct_pad env) (map nav (py_last 252 (portfolio_history e))))) < 10
        \<longrightarrow> calculate_var env e p = Inr (Fin 0))
   \<and> (30 \<le> length (portfolio_history e)
        \<and> map nav (py_last 252 (portfolio_history e)) = map Fin xs
        \<and> list_all (\<lambda>x. 0 < x) xs
        \<and> var_confidence e = Fin c \<and> 0 \<le> c \<and> c \<le> 1 \<longrightarrow>
      calculate_var env e p = Inr (Fin \<bar>percentile_spec (returns_spec xs) ((1 - c) * 100)\<bar>)
      \<and> 0 \<le> \<bar>percentile_spec (returns_spec xs) ((1 - c) * 100)\<bar>
      \<and> (list_all (\<lambda>r. r \<le> 1) (returns_spec xs) \<longrightarrow>
           \<bar>percentile_spec (returns_spec xs) ((1 - c) * 100)\<bar> \<le> 1))"
proof -
  have a: "length (portfolio_history e) < 30 \<Longrightarrow> calculate_var env e p = Inr (Fin 0)"
    by (simp add: calculate_var_def)
  have b: "length (dropna (pct_change (pct_pad env) (map nav (py_last 252 (portfolio_history e))))) < 10
        \<Longrightarrow> calculate_var env e p = Inr (Fin 0)"
    by (simp add: calculate_var_def Let_def)
  have c: "calculate_var env e p = Inr (Fin \<bar>percentile_spec (returns_spec xs) ((1 - c) * 100)\<bar>)
      \<and> 0 \<le> \<bar>percentile_spec (returns_spec xs) ((1 - c) * 100)\<bar>
      \<and> (list_all (\<lambda>r. r \<le> 1) (returns_spec xs) \<longrightarrow>
           \<bar>percentile_spec (returns_spec xs) ((1 - c) * 100)\<bar> \<le> 1)"
    if len: "30 \<le> length (portfolio_history e)"
      and navs: "map nav (py_last 252 (portfolio_history e)) = map Fin xs"
      and pos: "list_all (\<lambda>x. 0 < x) xs"
      and conf: "var_confidence e = Fin c" and c0: "0 \<le> c" and c1: "c \<le> 1"
  proof -
    let ?rs = "returns_spec xs"
    let ?q = "(1 - c) * 100"
    have "length (map nav (py_last 252 (portfolio_history e))) \<ge> 30"
      using len by (simp add: py_last_def)
    with navs have lx: "30 \<le> length xs"
      by (metis length_map)
    then have ne: "xs \<noteq> []"
      by auto
    from pos have pos': "\<forall>x\<in>set xs. 0 < x"
      by (simp add: list_all_iff)
    then have nz: "\<forall>x\<in>set xs. x \<noteq> 0"
      by auto
    have lr: "length ?rs = length xs - 1"
      by (simp add: returns_spec_def)
    with lx have lr10: "\<not> length ?rs < 10" and rne: "?rs \<noteq> []"
      by auto
    have q: "0 \<le> ?q" "?q \<le> 100"
      using c0 c1 by simp_all
    have ret: "dropna (pct_change (pct_pad env) (map Fin xs)) = map Fin ?rs"
      using dropna_Fin [of ?rs]
      by (simp add: pct_change_Fin [OF ne nz] dropna_def)
    have vp: "fmul (fsub (Fin 1) (Fin c)) (Fin 100) = Fin ?q"
      by (simp add: fsub_def)
    have "calculate_var env e p =
        (case np_percentile (map Fin ?rs) (Fin ?q) of Inl err \<Rightarrow> Inl err | Inr var \<Rightarrow> Inr (fabs var))"
      using len lr10 unfolding calculate_var_def Let_def navs ret conf vp by simp
    also have "\<dots> = Inr (Fin \<bar>percentile_spec ?rs ?q\<bar>)"
      unfolding np_percentile_Fin [OF rne q] by simp
    finally have val: "calculate_var env e p = Inr (Fin \<bar>percentile_spec ?rs ?q\<bar>)" .
    have bound: "\<bar>percentile_spec ?rs ?q\<bar> \<le> 1" if "list_all (\<lambda>r. r \<le> 1) ?rs"
    proof -
      from that have ub: "\<forall>r\<in>set ?rs. r \<le> 1"
        by (simp add: list_all_iff)
      from returns_spec_gt [OF pos'] have lb: "\<forall>r\<in>set ?rs. - 1 \<le> r"
        by auto
      from percentile_spec_bounds [OF rne q lb ub] show ?thesis
        by (simp add: abs_le_iff)
    qed
    from val bound show ?thesis
      by simp
  qed
  from a b c show ?thesis
    by blast
qed

theorem var_historical_witness:
  "length (portfolio_history default_engine) < 30
   \<and> calculate_var sample_env default_engine (day 0) = Inr (Fin 0)
   \<and> length (dropna (pct_change (pct_pad sample_env)
        (map nav (py_last 252 (portfolio_history (default_engine\<lparr>portfolio_history := nan_history\<rparr>)))))) < 10
   \<and> calculate_var sample_env (default_engine\<lparr>portfolio_history := nan_history\<rparr>) (day 0) = Inr (Fin 0)
   \<and> 30 \<le> length (portfolio_history (default_engine\<lparr>portfolio_history := slump_history\<rparr>))
   \<and> map nav (py_last 252 (portfolio_history (default_engine\<lparr>portfolio_history := slump_history\<rparr>)))
       = map Fin slump_navs
   \<and> list_all (\<lambda>x. 0 < x) slump_navs
   \<and> var_confidence (default_engine\<lparr>portfolio_history := slump_history\<rparr>) = Fin (95 / 100)
   \<and> list_all (\<lambda>r. r \<le> 1) (returns_spec slump_navs)
   \<and> calculate_var sample_env (default_engine\<lparr>portfolio_history := slump_history\<rparr>) (day 0)
       = Inr (Fin \<bar>percentile_spec (returns_spec slump_navs) ((1 - 95 / 100) * 100)\<bar>)
   \<and> \<bar>percentile_spec (returns_spec slump_navs) ((1 - 95 / 100) * 100)\<bar> \<le> 1
   \<and> calculate_var sample_env (default_engine\<lparr>portfolio_history := slump_history\<rparr>) (day 0)
       = Inr (Fin (1 / 2))"
proof -
  let ?n = "default_engine\<lparr>portfolio_history := nan_history\<rparr>"
  let ?s = "default_engine\<lparr>portfolio_history := slump_history\<rparr>"
  have h0: "length (portfolio_history default_engine) < 30"
    by (simp add: default_engine_def RiskEngine_init_def)
  have h1: "length (dropna (pct_change (pct_pad sample_env)
        (map nav (py_last 252 (portfolio_history ?n))))) < 10"
    by code_simp
  have h2: "30 \<le> length (portfolio_history ?s)"
    by (simp add: slump_history_def slump_navs_def)
  have h3: "map nav (py_last 252 (portfolio_history ?s)) = map Fin slump_navs"
    by (simp add: slump_history_def py_last_def slump_navs_def sample_portfolio_def comp_def)
  have h4: "list_all (\<lambda>x. 0 < x) slump_navs"
    by code_simp
  have h5: "var_confidence ?s = Fin (95 / 100)"
    by (simp add: default_engine_def RiskEngine_init_def get_default_config_def dict_get_def)
  have h6: "(0 :: real) \<le> 95 / 100" "(95 / 100 :: real) \<le> 1"
    by simp_all
  have h7: "list_all (\<lambda>r. r \<le> 1) (returns_spec slump_navs)"
    by code_simp
  have v: "calculate_var sample_env ?s (day 0) = Inr (Fin (1 / 2))"
    by code_simp
  from var_historical [of default_engine sample_env "day 0" "[]" 0] h0
  have r0: "calculate_var sample_env default_engine (day 0) = Inr (Fin 0)"
    by blast
  from var_historical [of ?n sample_env "day 0" "[]" 0] h1
  have r1: "calculate_var sample_env ?n (day 0) = Inr (Fin 0)"
    by blast
  from var_historical [of ?s sample_env "day 0" slump_navs "95 / 100"] h2 h3 h4 h5 h6 h7
  have r2: "calculate_var sample_env ?s (day 0)
       = Inr (Fin \<bar>percentile_spec (returns_spec slump_navs) ((1 - 95 / 100) * 100)\<bar>)
      \<and> \<bar>percentile_spec (returns_spec slump_navs) ((1 - 95 / 100) * 100)\<bar> \<le> 1"
    by blast
  from h0 h1 h2 h3 h4 h5 h7 v r0 r1 r2 show ?thesis
    by blast
qed

end
